theory Spec2Isabelle
  imports Main
begin

section \<open>The BigQuery query connector of Grove\<close>

text \<open>
  A shallow embedding of \<^verbatim>\<open>Connector.collect\<close> and \<^verbatim>\<open>Connector.get_credentials\<close> of
  \<^verbatim>\<open>grove/connectors/google/bigquery_query.py\<close>.

  What the method receives from outside the file is a parameter of the model: the
  configuration object, the stored pointer, the clock, the BigQuery client and the sink
  \<^verbatim>\<open>self.save\<close>. What it does to the outside is an event log: every assignment to
  \<^verbatim>\<open>self.pointer\<close>, every call of \<^verbatim>\<open>client.query\<close> with its outcome, every call of
  \<^verbatim>\<open>self.save\<close> with its argument, in the order of execution. Logging calls are left out.

  Strings are lists of 8-bit characters; the model covers ASCII text. Python integers
  are \<open>int\<close>. The interpreter's optional limit on the number of digits of an integer
  string conversion is not modelled. The library calls whose results the method uses
  (\<^verbatim>\<open>datetime.fromisoformat\<close>, \<^verbatim>\<open>strftime\<close>, the float product behind
  \<^verbatim>\<open>pointer_epoch_usec\<close>) are parameters as well.
\<close>

subsection \<open>Python strings and integers\<close>

text \<open>
  The ASCII characters that \<^verbatim>\<open>str.strip()\<close> removes: tab to carriage return, the four
  separators \<^verbatim>\<open>\x1c\<close> to \<^verbatim>\<open>\x1f\<close>, and the space.
\<close>

definition is_space :: "char \<Rightarrow> bool" where
  "is_space c = (let n = (of_char c :: nat) in (9 \<le> n \<and> n \<le> 13) \<or> (28 \<le> n \<and> n \<le> 32))"

definition strip :: "string \<Rightarrow> string" where
  "strip s = rev (dropWhile is_space (rev (dropWhile is_space s)))"

text \<open>
  The ASCII characters that \<^verbatim>\<open>int()\<close> skips around a numeral: tab to carriage return
  and the space, without the four separators (\<^verbatim>\<open>int('\x1c42')\<close> raises \<^verbatim>\<open>ValueError\<close>).
\<close>

definition is_int_space :: "char \<Rightarrow> bool" where
  "is_int_space c = (let n = (of_char c :: nat) in (9 \<le> n \<and> n \<le> 13) \<or> n = 32)"

definition int_strip :: "string \<Rightarrow> string" where
  "int_strip s = rev (dropWhile is_int_space (rev (dropWhile is_int_space s)))"

definition is_digit :: "char \<Rightarrow> bool" where
  "is_digit c = (let n = (of_char c :: nat) in 48 \<le> n \<and> n \<le> 57)"

definition digit_val :: "char \<Rightarrow> int" where
  "digit_val c = int (of_char c) - 48"

definition digit_char :: "nat \<Rightarrow> char" where
  "digit_char d = char_of (48 + d)"

text \<open>
  \<^verbatim>\<open>int(s)\<close> for a string in base 10: the white space around it is skipped, one sign is
  allowed, then decimal digits follow, with single underscores allowed between two digits.
  \<open>None\<close> stands for the \<^verbatim>\<open>ValueError\<close>. \<open>parse_digits acc s\<close> reads the rest of a
  numeral of which a digit has just been read.
\<close>

fun parse_digits :: "int \<Rightarrow> string \<Rightarrow> int option" where
  "parse_digits acc [] = Some acc"
| "parse_digits acc [c] = (if is_digit c then Some (10 * acc + digit_val c) else None)"
| "parse_digits acc (c # d # cs) =
     (if is_digit c then parse_digits (10 * acc + digit_val c) (d # cs)
      else if c = CHR ''_'' \<and> is_digit d then parse_digits (10 * acc + digit_val d) cs
      else None)"

definition parse_numeral :: "string \<Rightarrow> int option" where
  "parse_numeral s =
     (case s of [] \<Rightarrow> None
      | c # cs \<Rightarrow> if is_digit c then parse_digits (digit_val c) cs else None)"

definition py_int :: "string \<Rightarrow> int option" where
  "py_int s =
     (case int_strip s of [] \<Rightarrow> None
      | c # cs \<Rightarrow>
          if c = CHR ''-'' then map_option uminus (parse_numeral cs)
          else if c = CHR ''+'' then parse_numeral cs
          else parse_numeral (c # cs))"

text \<open>\<^verbatim>\<open>str(n)\<close> for an integer: the decimal digits, most significant first.\<close>

fun str_nat :: "nat \<Rightarrow> string" where
  "str_nat n = (if n < 10 then [digit_char n] else str_nat (n div 10) @ [digit_char (n mod 10)])"

definition str_int :: "int \<Rightarrow> string" where
  "str_int i = (if i < 0 then CHR ''-'' # str_nat (nat (- i)) else str_nat (nat i))"

text \<open>
  \<^verbatim>\<open>s.replace(old, new)\<close> for a non-empty \<^verbatim>\<open>old\<close>: every occurrence, left to right, without
  overlap.
\<close>

function replace :: "string \<Rightarrow> string \<Rightarrow> string \<Rightarrow> string" where
  "replace old new [] = []"
| "replace old new (c # cs) =
     (if old \<noteq> [] \<and> take (length old) (c # cs) = old
      then new @ replace old new (drop (length old) (c # cs))
      else c # replace old new cs)"
  by pat_completeness auto
termination
  by (relation "measure (\<lambda>(old, new, s). length s)") auto

text \<open>Whether \<open>old\<close> occurs in a string, as \<^verbatim>\<open>old in s\<close> tells.\<close>

fun occurs :: "string \<Rightarrow> string \<Rightarrow> bool" where
  "occurs old [] = (old = [])"
| "occurs old (c # cs) = (take (length old) (c # cs) = old \<or> occurs old cs)"

text \<open>\<^verbatim>\<open>sep.join(xs)\<close> for a list of strings.\<close>

fun join :: "string \<Rightarrow> string list \<Rightarrow> string" where
  "join sep [] = []"
| "join sep [x] = x"
| "join sep (x # y # ys) = x @ sep @ join sep (y # ys)"

subsection \<open>Values, configuration and errors\<close>

text \<open>
  The values an attribute of the configuration object can hold. \<open>PyBool\<close> is kept
  apart from \<open>PyInt\<close> because \<^verbatim>\<open>isinstance(True, int)\<close> holds in Python.
\<close>

datatype pyval = PyNone | PyBool bool | PyInt int | PyStr string | PyList "pyval list"

fun truthy :: "pyval \<Rightarrow> bool" where
  "truthy PyNone = False"
| "truthy (PyBool b) = b"
| "truthy (PyInt i) = (i \<noteq> 0)"
| "truthy (PyStr s) = (s \<noteq> [])"
| "truthy (PyList xs) = (xs \<noteq> [])"

fun is_str :: "pyval \<Rightarrow> bool" where
  "is_str (PyStr s) = True"
| "is_str v = False"

fun is_list :: "pyval \<Rightarrow> bool" where
  "is_list (PyList xs) = True"
| "is_list v = False"

fun is_int :: "pyval \<Rightarrow> bool" where
  "is_int (PyInt i) = True"
| "is_int (PyBool b) = True"
| "is_int v = False"

text \<open>
  The content of a value whose type has been checked; the last equation of each is
  never reached after the check.
\<close>

fun str_of :: "pyval \<Rightarrow> string" where
  "str_of (PyStr s) = s"
| "str_of v = []"

fun list_of :: "pyval \<Rightarrow> pyval list" where
  "list_of (PyList xs) = xs"
| "list_of v = []"

fun int_of :: "pyval \<Rightarrow> int" where
  "int_of (PyInt i) = i"
| "int_of (PyBool b) = (if b then 1 else 0)"
| "int_of v = 0"

text \<open>
  \<^verbatim>\<open>self.configuration\<close>: each attribute is present with a value, or missing (\<open>None\<close>),
  in which case reading it raises \<^verbatim>\<open>AttributeError\<close>.
\<close>

record configuration =
  cfg_project_id :: "pyval option"
  cfg_dataset_name :: "pyval option"
  cfg_table_name :: "pyval option"
  cfg_columns :: "pyval option"
  cfg_max_batches :: "pyval option"
  cfg_pointer_path :: "pyval option"
  cfg_time_format :: "pyval option"

text \<open>The messages of \<^verbatim>\<open>ConfigurationException\<close>, one constructor for each raise.\<close>

datatype problem =
    MissingAttribute string
  | PointerPathNotSet
  | MaxBatchesNotPositive
  | NotAString pyval
  | ColumnsNotAList
  | BadTimeFormat
  | PointerNotMicroseconds string
  | PointerNotTimestamp string
  | ServiceAccountNotJson
  | ServiceAccountAuth
  | ServiceAccountInfo

datatype error =
    ConfigurationException problem
  | NotFoundException
  | ValueError
  | TypeError
  | AttributeError
  | UnboundLocalError
  | ClientException
  | RequestFailedException

text \<open>The local variables of \<^verbatim>\<open>collect\<close> after the configuration block (lines 30 to 67).\<close>

record locals =
  project_id :: string
  dataset_name :: string
  table_name :: string
  columns :: "pyval list"
  max_batches :: int
  POINTER_PATH :: pyval
  time_format :: string

definition missing :: "string \<Rightarrow> error + 'a" where
  "missing name = Inl (ConfigurationException (MissingAttribute name))"

text \<open>Lines 45 to 63, on the values read from the configuration.\<close>

definition check_values ::
  "pyval \<Rightarrow> pyval \<Rightarrow> pyval \<Rightarrow> pyval \<Rightarrow> pyval \<Rightarrow> pyval \<Rightarrow> pyval \<Rightarrow> error + locals" where
  "check_values project dataset table cols batches path format =
     (if \<not> truthy path then Inl (ConfigurationException PointerPathNotSet)
      else if \<not> is_int batches \<or> int_of batches \<le> 0
        then Inl (ConfigurationException MaxBatchesNotPositive)
      else (case find (\<lambda>value. \<not> is_str value) [project, dataset, table] of
              Some value \<Rightarrow> Inl (ConfigurationException (NotAString value))
            | None \<Rightarrow>
                (if \<not> is_list cols then Inl (ConfigurationException ColumnsNotAList)
                 else if format \<notin> set [PyStr ''microseconds'', PyStr ''timestamp'']
                   then Inl (ConfigurationException BadTimeFormat)
                 else Inr \<lparr>project_id = str_of project, dataset_name = str_of dataset,
                           table_name = str_of table, columns = list_of cols,
                           max_batches = int_of batches, POINTER_PATH = path,
                           time_format = str_of format\<rparr>)))"

text \<open>
  Lines 30 to 67: the attributes are read first, in the order of the source, with the
  defaults of the two \<^verbatim>\<open>getattr\<close> calls; a missing one is an \<^verbatim>\<open>AttributeError\<close>, turned
  into a \<^verbatim>\<open>ConfigurationException\<close> by the handler.
\<close>

definition validate :: "configuration \<Rightarrow> error + locals" where
  "validate c =
     (case cfg_project_id c of None \<Rightarrow> missing ''project_id'' | Some project \<Rightarrow>
     (case cfg_dataset_name c of None \<Rightarrow> missing ''dataset_name'' | Some dataset \<Rightarrow>
     (case cfg_table_name c of None \<Rightarrow> missing ''table_name'' | Some table \<Rightarrow>
     (case cfg_columns c of None \<Rightarrow> missing ''columns'' | Some cols \<Rightarrow>
     (case cfg_pointer_path c of None \<Rightarrow> missing ''pointer_path'' | Some path \<Rightarrow>
        check_values project dataset table cols
          (case cfg_max_batches c of None \<Rightarrow> PyInt 3 | Some v \<Rightarrow> v)
          path
          (case cfg_time_format c of None \<Rightarrow> PyStr ''microseconds'' | Some v \<Rightarrow> v))))))"

subsection \<open>The collaborators\<close>

text \<open>
  What \<^verbatim>\<open>json.loads(self.key)\<close> and \<^verbatim>\<open>Credentials.from_service_account_info\<close> do
  with the configured key: they accept it, or raise one of the three exceptions that
  \<^verbatim>\<open>get_credentials\<close> handles, or raise another one, which it lets through (an
  \<^verbatim>\<open>AttributeError\<close> for a key that is a JSON list).
\<close>

datatype key_outcome =
    KeyAccepted | JSONDecodeError | GoogleAuthError | KeyValueError | KeyAttributeError

text \<open>
  The environment of one call of \<^verbatim>\<open>collect\<close>.
  \<^item> \<open>utcnow\<close>: the reading of \<^verbatim>\<open>datetime.utcnow()\<close>, in microseconds since the epoch;
  \<^item> \<open>timestamp_usec d\<close>: \<^verbatim>\<open>int(d.timestamp() * 1_000_000)\<close> for the UTC instant \<open>d\<close>
    given in microseconds since the epoch; the product is a float, so the result can miss
    \<open>d\<close> by a microsecond;
  \<^item> \<open>strftime\<close>: \<^verbatim>\<open>strftime("%Y-%m-%d %H:%M:%S+00")\<close> of an instant given in microseconds;
  \<^item> \<open>fromisoformat\<close>: whether \<^verbatim>\<open>datetime.fromisoformat\<close> accepts a string (it raises
    \<^verbatim>\<open>ValueError\<close> otherwise);
  \<^item> \<open>py_str\<close>: \<^verbatim>\<open>str(v)\<close> for a value that is not a string, as an f-string applies it;
  \<^item> \<open>service_account\<close>: the outcome of building the credentials from \<^verbatim>\<open>self.key\<close>;
  \<^item> \<open>client_raises\<close>: whether \<^verbatim>\<open>bigquery.Client(...)\<close> raises;
  \<^item> \<open>execute i q\<close>: the rows that the call number \<open>i\<close> (from 0) of
    \<^verbatim>\<open>client.query(q).result()\<close> returns in this run, \<open>None\<close> when it raises;
  \<^item> \<open>save_raises rows\<close>: whether \<^verbatim>\<open>self.save(rows)\<close> raises.
\<close>

record 'row env =
  utcnow :: int
  timestamp_usec :: "int \<Rightarrow> int"
  strftime :: "int \<Rightarrow> string"
  fromisoformat :: "string \<Rightarrow> bool"
  py_str :: "pyval \<Rightarrow> string"
  service_account :: key_outcome
  client_raises :: bool
  execute :: "nat \<Rightarrow> string \<Rightarrow> 'row list option"
  save_raises :: "'row list \<Rightarrow> bool"

datatype 'row event =
    SetPointer string
  | Query string "'row list option"
  | Save "'row list"

definition get_credentials :: "'row env \<Rightarrow> error + unit" where
  "get_credentials env =
     (case service_account env of
        JSONDecodeError \<Rightarrow> Inl (ConfigurationException ServiceAccountNotJson)
      | GoogleAuthError \<Rightarrow> Inl (ConfigurationException ServiceAccountAuth)
      | KeyValueError \<Rightarrow> Inl (ConfigurationException ServiceAccountInfo)
      | KeyAttributeError \<Rightarrow> Inl AttributeError
      | KeyAccepted \<Rightarrow> Inr ())"

text \<open>Lines 71 to 78: any exception is logged and raised again.\<close>

definition make_client :: "'row env \<Rightarrow> error + unit" where
  "make_client env =
     (case get_credentials env of
        Inl e \<Rightarrow> Inl e
      | Inr u \<Rightarrow> if client_raises env then Inl ClientException else Inr ())"

subsection \<open>Resolving the pointer\<close>

text \<open>
  Lines 88 to 102, the check of a stored pointer that is not blank: the exception it
  raises, if any.
\<close>

definition check_pointer :: "'row env \<Rightarrow> string \<Rightarrow> string \<Rightarrow> error option" where
  "check_pointer env tf stored_pointer =
     (if stored_pointer \<noteq> [] \<and> strip stored_pointer \<noteq> [] then
        if tf = ''microseconds'' then
          (case py_int stored_pointer of
             None \<Rightarrow> Some (ConfigurationException (PointerNotMicroseconds stored_pointer))
           | Some n \<Rightarrow> None)
        else if fromisoformat env (replace ''+00'' ''+00:00'' stored_pointer) then None
        else Some (ConfigurationException (PointerNotTimestamp stored_pointer))
      else None)"

text \<open>
  The body of the \<^verbatim>\<open>try\<close> of lines 81 to 109. \<open>stored = None\<close> is the pointer store
  raising \<^verbatim>\<open>NotFoundException\<close>. The result is the value of \<^verbatim>\<open>pointer_epoch_usec\<close>
  (\<open>None\<close> when the variable is left unbound) and the string assigned to
  \<^verbatim>\<open>self.pointer\<close>.
\<close>

definition warm_start :: "'row env \<Rightarrow> string \<Rightarrow> string option \<Rightarrow> error + (int option \<times> string)" where
  "warm_start env tf stored =
     (case stored of
        None \<Rightarrow> Inl NotFoundException
      | Some stored_pointer \<Rightarrow>
          (case check_pointer env tf stored_pointer of
             Some e \<Rightarrow> Inl e
           | None \<Rightarrow>
               if tf = ''microseconds'' then
                 (case py_int stored_pointer of
                    None \<Rightarrow> Inl ValueError
                  | Some pointer_epoch_usec \<Rightarrow>
                      Inr (Some pointer_epoch_usec, str_int pointer_epoch_usec))
               else Inr (None, stored_pointer)))"

text \<open>
  The handler of lines 111 to 125. \<open>week_ago\<close> is the datetime of line 113, in
  microseconds since the epoch: \<^verbatim>\<open>timedelta(days=7)\<close> is subtracted exactly.
\<close>

definition week_ago :: "'row env \<Rightarrow> int" where
  "week_ago env = utcnow env - 7 * 86400 * 1000000"

definition cold_start :: "'row env \<Rightarrow> string \<Rightarrow> int option \<times> string" where
  "cold_start env tf =
     (if tf = ''microseconds'' then
        (Some (timestamp_usec env (week_ago env)), str_int (timestamp_usec env (week_ago env)))
      else (Some (timestamp_usec env (week_ago env)), strftime env (week_ago env)))"

fun caught :: "error \<Rightarrow> bool" where
  "caught NotFoundException = True"
| "caught ValueError = True"
| "caught (ConfigurationException p) = True"
| "caught e = False"

definition resolve_pointer :: "'row env \<Rightarrow> string \<Rightarrow> string option \<Rightarrow> error + (int option \<times> string)" where
  "resolve_pointer env tf stored =
     (case warm_start env tf stored of
        Inr r \<Rightarrow> Inr r
      | Inl e \<Rightarrow> if caught e then Inr (cold_start env tf) else Inl e)"

subsection \<open>The query\<close>

definition format_value :: "'row env \<Rightarrow> pyval \<Rightarrow> string" where
  "format_value env v = (case v of PyStr s \<Rightarrow> s | _ \<Rightarrow> py_str env v)"

text \<open>Lines 132 to 140. \<open>pointer\<close> is the current value of \<^verbatim>\<open>self.pointer\<close>.\<close>

definition where_clause :: "'row env \<Rightarrow> locals \<Rightarrow> int option \<Rightarrow> string \<Rightarrow> error + string" where
  "where_clause env l pointer_epoch_usec pointer =
     (if time_format l = ''microseconds'' then
        (case pointer_epoch_usec of
           None \<Rightarrow> Inl UnboundLocalError
         | Some query_pointer \<Rightarrow>
             Inr (format_value env (POINTER_PATH l) @ '' > '' @ str_int query_pointer))
      else Inr (format_value env (POINTER_PATH l) @ '' > TIMESTAMP('' @ [CHR 0x27] @ pointer
                 @ [CHR 0x27] @ '')''))"

text \<open>\<^verbatim>\<open>', '.join(columns)\<close> raises \<^verbatim>\<open>TypeError\<close> on an item that is not a string.\<close>

definition join_columns :: "pyval list \<Rightarrow> error + string" where
  "join_columns cols =
     (if list_all is_str cols then Inr (join '', '' (map str_of cols)) else Inl TypeError)"

text \<open>
  The f-string of lines 142 to 149: every line of it starts with a line feed and the
  twelve spaces of the indentation, and so does the closing line.
\<close>

definition build_query :: "'row env \<Rightarrow> locals \<Rightarrow> int option \<Rightarrow> string \<Rightarrow> error + string" where
  "build_query env l pointer_epoch_usec pointer =
     (case where_clause env l pointer_epoch_usec pointer of
        Inl e \<Rightarrow> Inl e
      | Inr wc \<Rightarrow>
          (case join_columns (columns l) of
             Inl e \<Rightarrow> Inl e
           | Inr cols \<Rightarrow>
               Inr ([CHR 0x0A] @ ''            SELECT '' @ cols
                  @ [CHR 0x0A] @ ''            FROM `'' @ project_id l @ ''.'' @ dataset_name l
                       @ ''.'' @ table_name l @ ''`''
                  @ [CHR 0x0A] @ ''            WHERE '' @ wc
                  @ [CHR 0x0A] @ ''            AND '' @ format_value env (POINTER_PATH l)
                       @ '' IS NOT NULL''
                  @ [CHR 0x0A] @ ''            ORDER BY '' @ format_value env (POINTER_PATH l)
                       @ '' ASC''
                  @ [CHR 0x0A] @ ''            LIMIT 1000''
                  @ [CHR 0x0A] @ ''            '')))"

subsection \<open>The paging loop\<close>

text \<open>
  One pass through the body of \<^verbatim>\<open>while True\<close> (lines 132 to 180): it leaves the loop,
  by \<^verbatim>\<open>break\<close> (no error) or by an exception, or goes round again with the new
  \<^verbatim>\<open>all_rows\<close>. \<open>i\<close> counts the calls of \<^verbatim>\<open>client.query\<close> made before this one.
\<close>

datatype 'row step =
    Leave "error option" "'row event list"
  | Again "'row event list" "'row list"

definition loop_body ::
  "'row env \<Rightarrow> locals \<Rightarrow> int option \<Rightarrow> string \<Rightarrow> nat \<Rightarrow> 'row list \<Rightarrow> nat \<Rightarrow> 'row step" where
  "loop_body env l pointer_epoch_usec pointer i all_rows batch_count =
     (case build_query env l pointer_epoch_usec pointer of
        Inl e \<Rightarrow> Leave (Some e) []
      | Inr query \<Rightarrow>
          (case execute env i query of
             None \<Rightarrow> Leave (Some RequestFailedException) [Query query None]
           | Some rows \<Rightarrow>
               if rows = [] then Leave None [Query query (Some rows)]
               else if int (batch_count + 1) \<ge> max_batches l \<or> length rows < 1000 then
                 (if all_rows @ rows \<noteq> [] then
                    (if save_raises env (all_rows @ rows)
                     then Leave (Some RequestFailedException)
                            [Query query (Some rows), Save (all_rows @ rows)]
                     else Leave None [Query query (Some rows), Save (all_rows @ rows)])
                  else Leave None [Query query (Some rows)])
               else Again [Query query (Some rows)] (all_rows @ rows)))"

function paging_loop ::
  "'row env \<Rightarrow> locals \<Rightarrow> int option \<Rightarrow> string \<Rightarrow> nat \<Rightarrow> 'row list \<Rightarrow> nat
   \<Rightarrow> error option \<times> 'row event list" where
  "paging_loop env l pointer_epoch_usec pointer i all_rows batch_count =
     (case loop_body env l pointer_epoch_usec pointer i all_rows batch_count of
        Leave out evs \<Rightarrow> (out, evs)
      | Again evs all_rows' \<Rightarrow>
          (case paging_loop env l pointer_epoch_usec pointer (i + 1) all_rows' (batch_count + 1) of
             (out, rest) \<Rightarrow> (out, evs @ rest)))"
  by pat_completeness auto
termination
  by (relation "measure (\<lambda>(env, l, u, p, i, all_rows, batch_count).
        nat (max_batches l - int batch_count))")
     (auto simp: loop_body_def split: sum.splits option.splits if_splits)

subsection \<open>The method\<close>

text \<open>
  One call of \<^verbatim>\<open>collect\<close>: the exception it raises (\<open>None\<close> when it returns), the
  pointer afterwards (\<open>None\<close> while the store has none) and what it did, in order.
\<close>

record 'row run =
  outcome :: "error option"
  pointer :: "string option"
  events :: "'row event list"

definition collect :: "'row env \<Rightarrow> configuration \<Rightarrow> string option \<Rightarrow> 'row run" where
  "collect env c stored =
     (case validate c of
        Inl e \<Rightarrow> \<lparr>outcome = Some e, pointer = stored, events = []\<rparr>
      | Inr l \<Rightarrow>
          (case make_client env of
             Inl e \<Rightarrow> \<lparr>outcome = Some e, pointer = stored, events = []\<rparr>
           | Inr client \<Rightarrow>
               (case resolve_pointer env (time_format l) stored of
                  Inl e \<Rightarrow> \<lparr>outcome = Some e, pointer = stored, events = []\<rparr>
                | Inr (pointer_epoch_usec, p) \<Rightarrow>
                    (case paging_loop env l pointer_epoch_usec p 0 [] 0 of
                       (out, evs) \<Rightarrow>
                         \<lparr>outcome = out, pointer = Some p, events = SetPointer p # evs\<rparr>))))"

subsection \<open>Reading the event log\<close>

text \<open>The results of the calls of the client, and the arguments of the calls of the sink.\<close>

fun fetched :: "'row event list \<Rightarrow> 'row list option list" where
  "fetched [] = []"
| "fetched (Query q r # evs) = r # fetched evs"
| "fetched (e # evs) = fetched evs"

fun saved :: "'row event list \<Rightarrow> 'row list list" where
  "saved [] = []"
| "saved (Save rows # evs) = rows # saved evs"
| "saved (e # evs) = saved evs"

subsection \<open>Sample environments and configurations\<close>

text \<open>
  An environment for the examples: the clock reads 2023-11-14 22:13:20 UTC, and
  \<open>timestamp_usec\<close> and \<open>strftime\<close> return what the library returns for the instant
  seven days earlier, the only one they are applied to. \<open>fromisoformat\<close> accepts the
  listed spellings of midnight, 1 January 2024, which the library accepts; of the strings
  of the examples it rejects all others, as the library does. The key is accepted, the
  sink never raises, and the call number \<open>i\<close> of the client returns \<open>pages i\<close> whatever
  the query.
\<close>

definition test_env :: "(nat \<Rightarrow> nat list option) \<Rightarrow> nat env" where
  "test_env pages =
     \<lparr>utcnow = 1700000000000000,
      timestamp_usec = (\<lambda>d. 1699395200000000),
      strftime = (\<lambda>d. ''2023-11-07 22:13:20+00''),
      fromisoformat = (\<lambda>s. s \<in> set [''2024-01-01 00:00:00'', ''2024-01-01 00:00:00+00'',
         ''2024-01-01 00:00:00+00:00'', ''2024-01-01 00:00:00+00:00:00'',
         ''2024-01-01 00:00:00+0000'']),
      py_str = (\<lambda>v. ''None''),
      service_account = KeyAccepted,
      client_raises = False,
      execute = (\<lambda>i q. pages i),
      save_raises = (\<lambda>rows. False)\<rparr>"

subsection \<open>The checks of the configuration, as a list\<close>

text \<open>
  The checks that lines 30 to 67 make, written as a list in the order in which the code
  makes them, each with the message it raises; \<open>first_violation\<close> is the first one
  that fails. \<open>validate\<close> is compared with it below.
\<close>

definition attr_or :: "pyval \<Rightarrow> pyval option \<Rightarrow> pyval" where
  "attr_or d a = (case a of None \<Rightarrow> d | Some v \<Rightarrow> v)"

definition present_but :: "(pyval \<Rightarrow> bool) \<Rightarrow> pyval option \<Rightarrow> bool" where
  "present_but P a = (case a of None \<Rightarrow> False | Some v \<Rightarrow> \<not> P v)"

definition checks_in_order :: "configuration \<Rightarrow> (bool \<times> problem) list" where
  "checks_in_order c =
     [(cfg_project_id c = None, MissingAttribute ''project_id''),
      (cfg_dataset_name c = None, MissingAttribute ''dataset_name''),
      (cfg_table_name c = None, MissingAttribute ''table_name''),
      (cfg_columns c = None, MissingAttribute ''columns''),
      (cfg_pointer_path c = None, MissingAttribute ''pointer_path''),
      (present_but truthy (cfg_pointer_path c), PointerPathNotSet),
      (\<not> (is_int (attr_or (PyInt 3) (cfg_max_batches c))
           \<and> 0 < int_of (attr_or (PyInt 3) (cfg_max_batches c))), MaxBatchesNotPositive),
      (present_but is_str (cfg_project_id c), NotAString (attr_or PyNone (cfg_project_id c))),
      (present_but is_str (cfg_dataset_name c), NotAString (attr_or PyNone (cfg_dataset_name c))),
      (present_but is_str (cfg_table_name c), NotAString (attr_or PyNone (cfg_table_name c))),
      (present_but is_list (cfg_columns c), ColumnsNotAList),
      (attr_or (PyStr ''microseconds'') (cfg_time_format c) \<noteq> PyStr ''microseconds''
         \<and> attr_or (PyStr ''microseconds'') (cfg_time_format c) \<noteq> PyStr ''timestamp'',
       BadTimeFormat)]"

definition first_violation :: "configuration \<Rightarrow> problem option" where
  "first_violation c = map_option snd (find fst (checks_in_order c))"

text \<open>A configuration that leaves both optional attributes out.\<close>

definition sample_configuration :: configuration where
  "sample_configuration =
     \<lparr>cfg_project_id = Some (PyStr ''acme''), cfg_dataset_name = Some (PyStr ''audit''),
      cfg_table_name = Some (PyStr ''events''),
      cfg_columns = Some (PyList [PyStr ''ts'', PyStr ''actor'']),
      cfg_max_batches = None, cfg_pointer_path = Some (PyStr ''ts''),
      cfg_time_format = None\<rparr>"

text \<open>
  What \<open>validate\<close> makes of the sample configuration, and the query of a run that starts
  from the stored pointer \<^verbatim>\<open>42\<close>.
\<close>

definition sample_locals :: locals where
  "sample_locals =
     \<lparr>project_id = ''acme'', dataset_name = ''audit'', table_name = ''events'',
      columns = [PyStr ''ts'', PyStr ''actor''], max_batches = 3,
      POINTER_PATH = PyStr ''ts'', time_format = ''microseconds''\<rparr>"

definition sample_query :: string where
  "sample_query =
     [CHR 0x0A] @ ''            SELECT ts, actor''
     @ [CHR 0x0A] @ ''            FROM `acme.audit.events`''
     @ [CHR 0x0A] @ ''            WHERE ts > 42''
     @ [CHR 0x0A] @ ''            AND ts IS NOT NULL''
     @ [CHR 0x0A] @ ''            ORDER BY ts ASC''
     @ [CHR 0x0A] @ ''            LIMIT 1000''
     @ [CHR 0x0A] @ ''            ''"

section \<open>Properties\<close>

subsection \<open>Integers and their decimal strings\<close>

declare str_nat.simps [simp del]

lemma is_digit_digit_char: "d < 10 \<Longrightarrow> is_digit (digit_char d)"
  by (simp add: is_digit_def digit_char_def)

lemma digit_val_digit_char: "d < 10 \<Longrightarrow> digit_val (digit_char d) = int d"
  by (simp add: digit_val_def digit_char_def)

lemma is_digit_not_int_space: "is_digit c \<Longrightarrow> \<not> is_int_space c"
  by (auto simp: is_digit_def is_int_space_def Let_def)

lemma str_nat_digits: "\<forall>c \<in> set (str_nat n). is_digit c"
proof (induction n rule: str_nat.induct)
  case (1 n)
  show ?case
  proof (cases "n < 10")
    case True
    then show ?thesis by (simp add: str_nat.simps [of n] is_digit_digit_char)
  next
    case False
    with "1" show ?thesis by (simp add: str_nat.simps [of n] is_digit_digit_char)
  qed
qed

lemma str_nat_not_Nil: "str_nat n \<noteq> []"
  by (simp add: str_nat.simps [of n])

lemma parse_digits_snoc:
  "\<forall>c \<in> set xs. is_digit c \<Longrightarrow> is_digit d \<Longrightarrow>
   parse_digits acc (xs @ [d]) = map_option (\<lambda>v. 10 * v + digit_val d) (parse_digits acc xs)"
proof (induction acc xs rule: parse_digits.induct)
  case (1 acc)
  then show ?case by simp
next
  case (2 acc c)
  then show ?case by simp
next
  case (3 acc c e cs)
  then show ?case by simp
qed

lemma parse_numeral_snoc:
  "xs \<noteq> [] \<Longrightarrow> \<forall>c \<in> set xs. is_digit c \<Longrightarrow> is_digit d \<Longrightarrow>
   parse_numeral (xs @ [d]) = map_option (\<lambda>v. 10 * v + digit_val d) (parse_numeral xs)"
  by (cases xs) (simp_all add: parse_numeral_def parse_digits_snoc)

lemma parse_numeral_str_nat: "parse_numeral (str_nat n) = Some (int n)"
proof (induction n rule: str_nat.induct)
  case (1 n)
  show ?case
  proof (cases "n < 10")
    case True
    then show ?thesis
      by (simp add: str_nat.simps [of n] parse_numeral_def is_digit_digit_char
          digit_val_digit_char)
  next
    case False
    have d: "is_digit (digit_char (n mod 10))"
      by (simp add: is_digit_digit_char)
    have "parse_numeral (str_nat n) = parse_numeral (str_nat (n div 10) @ [digit_char (n mod 10)])"
      using False by (simp add: str_nat.simps [of n])
    also have "\<dots> = map_option (\<lambda>v. 10 * v + digit_val (digit_char (n mod 10)))
        (parse_numeral (str_nat (n div 10)))"
      using str_nat_not_Nil str_nat_digits d by (rule parse_numeral_snoc)
    also have "\<dots> = Some (10 * int (n div 10) + int (n mod 10))"
      using False "1" by (simp add: digit_val_digit_char)
    also have "10 * int (n div 10) + int (n mod 10) = int n"
      by presburger
    finally show ?thesis .
  qed
qed

lemma int_strip_digits:
  assumes "s \<noteq> []" "\<forall>c \<in> set s. is_digit c"
  shows "int_strip s = s"
proof -
  from assms have h: "\<not> is_int_space (hd s)" "\<not> is_int_space (last s)"
    by (simp_all add: is_digit_not_int_space)
  from h(1) assms(1) have "dropWhile is_int_space s = s"
    by (cases s) simp_all
  moreover from h(2) assms(1) have "dropWhile is_int_space (rev s) = rev s"
    by (cases "rev s") (simp_all add: last_rev [symmetric])
  ultimately show ?thesis by (simp add: int_strip_def)
qed

lemma int_strip_str_nat: "int_strip (str_nat n) = str_nat n"
  by (rule int_strip_digits) (simp_all add: str_nat_not_Nil str_nat_digits)

lemma int_strip_minus_str_nat: "int_strip (CHR ''-'' # str_nat n) = CHR ''-'' # str_nat n"
proof -
  have a: "\<not> is_int_space CHR ''-''" by (simp add: is_int_space_def)
  have "\<not> is_int_space (last (str_nat n))"
    using str_nat_digits [of n] str_nat_not_Nil [of n] by (simp add: is_digit_not_int_space)
  then have "dropWhile is_int_space (rev (str_nat n) @ [CHR ''-'']) = rev (str_nat n) @ [CHR ''-'']"
    using str_nat_not_Nil [of n]
    by (cases "rev (str_nat n)") (simp_all add: last_rev [symmetric])
  with a show ?thesis by (simp add: int_strip_def)
qed

lemma hd_str_nat_digit: "is_digit (hd (str_nat n))"
  using str_nat_digits [of n] str_nat_not_Nil [of n] by simp

lemma py_int_str_int: "py_int (str_int i) = Some i"
proof (cases "i < 0")
  case True
  then show ?thesis
    by (simp add: py_int_def str_int_def int_strip_minus_str_nat parse_numeral_str_nat)
next
  case False
  obtain c cs where s: "str_nat (nat i) = c # cs"
    using str_nat_not_Nil [of "nat i"] by (cases "str_nat (nat i)") auto
  have "is_digit c" using hd_str_nat_digit [of "nat i"] s by simp
  then have c: "c \<noteq> CHR ''-''" "c \<noteq> CHR ''+''"
    by (auto simp: is_digit_def)
  have "parse_numeral (c # cs) = Some i"
    using parse_numeral_str_nat [of "nat i"] s False by simp
  with False c s show ?thesis
    using int_strip_str_nat [of "nat i"] by (simp add: py_int_def str_int_def)
qed


lemma digit_char_simps:
  "digit_char 0 = CHR ''0''" "digit_char (Suc 0) = CHR ''1''" "digit_char 1 = CHR ''1''"
  "digit_char 2 = CHR ''2''" "digit_char 3 = CHR ''3''" "digit_char 4 = CHR ''4''"
  "digit_char 5 = CHR ''5''" "digit_char 6 = CHR ''6''" "digit_char 7 = CHR ''7''"
  "digit_char 8 = CHR ''8''" "digit_char 9 = CHR ''9''"
  by code_simp+

lemmas eval_simps = str_int_def str_nat.simps digit_char_simps py_int_def strip_def is_space_def
  int_strip_def is_int_space_def parse_numeral_def is_digit_def digit_val_def

subsection \<open>The configuration\<close>

lemma check_values_find:
  "check_values project dataset table cols batches path format =
     (case find fst
        [(\<not> truthy path, PointerPathNotSet),
         (\<not> (is_int batches \<and> 0 < int_of batches), MaxBatchesNotPositive),
         (\<not> is_str project, NotAString project),
         (\<not> is_str dataset, NotAString dataset),
         (\<not> is_str table, NotAString table),
         (\<not> is_list cols, ColumnsNotAList),
         (format \<noteq> PyStr ''microseconds'' \<and> format \<noteq> PyStr ''timestamp'', BadTimeFormat)] of
        Some (b, p) \<Rightarrow> Inl (ConfigurationException p)
      | None \<Rightarrow> Inr \<lparr>project_id = str_of project, dataset_name = str_of dataset,
           table_name = str_of table, columns = list_of cols,
           max_batches = int_of batches, POINTER_PATH = path,
           time_format = str_of format\<rparr>)"
  by (simp add: check_values_def)

lemma validate_first_violation:
  "validate c = (case first_violation c of
      Some p \<Rightarrow> Inl (ConfigurationException p)
    | None \<Rightarrow> Inr \<lparr>project_id = str_of (attr_or PyNone (cfg_project_id c)),
           dataset_name = str_of (attr_or PyNone (cfg_dataset_name c)),
           table_name = str_of (attr_or PyNone (cfg_table_name c)),
           columns = list_of (attr_or PyNone (cfg_columns c)),
           max_batches = int_of (attr_or (PyInt 3) (cfg_max_batches c)),
           POINTER_PATH = attr_or PyNone (cfg_pointer_path c),
           time_format = str_of (attr_or (PyStr ''microseconds'') (cfg_time_format c))\<rparr>)"
proof (cases "cfg_project_id c")
  case None
  then show ?thesis
    by (simp add: validate_def first_violation_def checks_in_order_def missing_def)
next
  case a1: (Some project)
  show ?thesis
  proof (cases "cfg_dataset_name c")
    case None
    with a1 show ?thesis
      by (simp add: validate_def first_violation_def checks_in_order_def missing_def)
  next
    case a2: (Some dataset)
    show ?thesis
    proof (cases "cfg_table_name c")
      case None
      with a1 a2 show ?thesis
        by (simp add: validate_def first_violation_def checks_in_order_def missing_def)
    next
      case a3: (Some table)
      show ?thesis
      proof (cases "cfg_columns c")
        case None
        with a1 a2 a3 show ?thesis
          by (simp add: validate_def first_violation_def checks_in_order_def missing_def)
      next
        case a4: (Some cols)
        show ?thesis
        proof (cases "cfg_pointer_path c")
          case None
          with a1 a2 a3 a4 show ?thesis
            by (simp add: validate_def first_violation_def checks_in_order_def missing_def)
        next
          case a5: (Some path)
          have "first_violation c = map_option snd (find fst
            [(\<not> truthy path, PointerPathNotSet),
             (\<not> (is_int (attr_or (PyInt 3) (cfg_max_batches c))
                \<and> 0 < int_of (attr_or (PyInt 3) (cfg_max_batches c))), MaxBatchesNotPositive),
             (\<not> is_str project, NotAString project),
             (\<not> is_str dataset, NotAString dataset),
             (\<not> is_str table, NotAString table),
             (\<not> is_list cols, ColumnsNotAList),
             (attr_or (PyStr ''microseconds'') (cfg_time_format c) \<noteq> PyStr ''microseconds''
               \<and> attr_or (PyStr ''microseconds'') (cfg_time_format c) \<noteq> PyStr ''timestamp'',
              BadTimeFormat)])"
            using a1 a2 a3 a4 a5
            by (simp add: first_violation_def checks_in_order_def present_but_def attr_or_def)
          moreover have "validate c = check_values project dataset table cols
              (attr_or (PyInt 3) (cfg_max_batches c)) path
              (attr_or (PyStr ''microseconds'') (cfg_time_format c))"
            using a1 a2 a3 a4 a5 by (simp add: validate_def attr_or_def)
          ultimately show ?thesis
            using a1 a2 a3 a4 a5
            by (simp add: check_values_find attr_or_def)
        qed
      qed
    qed
  qed
qed

text \<open>
  C4, as the claim states it, fails: a configuration whose \<^verbatim>\<open>project_id\<close> is the empty
  string and whose \<^verbatim>\<open>columns\<close> is the empty list is accepted, and a configuration with
  a bad \<^verbatim>\<open>project_id\<close> and a bad \<^verbatim>\<open>max_batches\<close> is rejected for \<^verbatim>\<open>max_batches\<close>.
\<close>

theorem empty_names_accepted:
  "validate (sample_configuration\<lparr>cfg_project_id := Some (PyStr []), cfg_columns := Some (PyList [])\<rparr>)
     = Inr \<lparr>project_id = [], dataset_name = ''audit'', table_name = ''events'', columns = [],
            max_batches = 3, POINTER_PATH = PyStr ''ts'', time_format = ''microseconds''\<rparr>
   \<and> validate (sample_configuration\<lparr>cfg_project_id := Some (PyInt 7), cfg_max_batches := Some (PyInt 0)\<rparr>)
     = Inl (ConfigurationException MaxBatchesNotPositive)"
  by (simp add: validate_def check_values_def sample_configuration_def)


lemma is_str_iff: "is_str v \<longleftrightarrow> (\<exists>s. v = PyStr s)"
  by (cases v) simp_all

lemma is_list_iff: "is_list v \<longleftrightarrow> (\<exists>xs. v = PyList xs)"
  by (cases v) simp_all

lemma no_violation:
  assumes "first_violation c = None"
  shows "\<exists>p d t cs path.
      cfg_project_id c = Some (PyStr p) \<and> cfg_dataset_name c = Some (PyStr d)
    \<and> cfg_table_name c = Some (PyStr t) \<and> cfg_columns c = Some (PyList cs)
    \<and> cfg_pointer_path c = Some path \<and> truthy path
    \<and> is_int (attr_or (PyInt 3) (cfg_max_batches c))
    \<and> 0 < int_of (attr_or (PyInt 3) (cfg_max_batches c))
    \<and> (attr_or (PyStr ''microseconds'') (cfg_time_format c) = PyStr ''microseconds''
       \<or> attr_or (PyStr ''microseconds'') (cfg_time_format c) = PyStr ''timestamp'')"
proof -
  from assms have "\<forall>x \<in> set (checks_in_order c). \<not> fst x"
    by (auto simp: first_violation_def find_None_iff)
  then have
    a: "cfg_project_id c \<noteq> None" "cfg_dataset_name c \<noteq> None" "cfg_table_name c \<noteq> None"
       "cfg_columns c \<noteq> None" "cfg_pointer_path c \<noteq> None"
    and b: "\<not> present_but truthy (cfg_pointer_path c)" "\<not> present_but is_str (cfg_project_id c)"
       "\<not> present_but is_str (cfg_dataset_name c)" "\<not> present_but is_str (cfg_table_name c)"
       "\<not> present_but is_list (cfg_columns c)"
    and m: "is_int (attr_or (PyInt 3) (cfg_max_batches c))"
       "0 < int_of (attr_or (PyInt 3) (cfg_max_batches c))"
    and f: "attr_or (PyStr ''microseconds'') (cfg_time_format c) = PyStr ''microseconds''
       \<or> attr_or (PyStr ''microseconds'') (cfg_time_format c) = PyStr ''timestamp''"
    by (simp_all add: checks_in_order_def)
  from a b have "\<exists>p. cfg_project_id c = Some (PyStr p)" "\<exists>d. cfg_dataset_name c = Some (PyStr d)"
    "\<exists>t. cfg_table_name c = Some (PyStr t)" "\<exists>cs. cfg_columns c = Some (PyList cs)"
    "\<exists>path. cfg_pointer_path c = Some path \<and> truthy path"
    by (auto simp: present_but_def is_str_iff is_list_iff)
  with m f show ?thesis by blast
qed

text \<open>
  C4, amended. \<^verbatim>\<open>validate\<close> accepts a configuration only if \<^verbatim>\<open>project_id\<close>,
  \<^verbatim>\<open>dataset_name\<close> and \<^verbatim>\<open>table_name\<close> are strings, \<^verbatim>\<open>columns\<close> is a list,
  \<^verbatim>\<open>max_batches\<close> (3 when left out) is an \<^verbatim>\<open>int\<close> above 0, \<^verbatim>\<open>pointer_path\<close> is truthy
  and \<^verbatim>\<open>time_format\<close> (\<^verbatim>\<open>microseconds\<close> when left out) is one of the two names. It
  rejects a configuration with the message of the first failing check of
  \<open>checks_in_order\<close>: the required attributes are present, then \<^verbatim>\<open>pointer_path\<close>, then
  \<^verbatim>\<open>max_batches\<close>, then the three names, then \<^verbatim>\<open>columns\<close>, then \<^verbatim>\<open>time_format\<close>; every
  rejection is a \<^verbatim>\<open>ConfigurationException\<close>.
\<close>

theorem validate_accepts:
  "(validate c = Inr l \<longrightarrow>
      cfg_project_id c = Some (PyStr (project_id l))
    \<and> cfg_dataset_name c = Some (PyStr (dataset_name l))
    \<and> cfg_table_name c = Some (PyStr (table_name l))
    \<and> cfg_columns c = Some (PyList (columns l))
    \<and> is_int (attr_or (PyInt 3) (cfg_max_batches c))
    \<and> int_of (attr_or (PyInt 3) (cfg_max_batches c)) = max_batches l
    \<and> 0 < max_batches l
    \<and> cfg_pointer_path c = Some (POINTER_PATH l) \<and> truthy (POINTER_PATH l)
    \<and> attr_or (PyStr ''microseconds'') (cfg_time_format c) = PyStr (time_format l)
    \<and> (time_format l = ''microseconds'' \<or> time_format l = ''timestamp''))
   \<and> (validate c = Inl e \<longleftrightarrow> (\<exists>p. first_violation c = Some p \<and> e = ConfigurationException p))"
proof (intro conjI impI)
  show "validate c = Inl e \<longleftrightarrow> (\<exists>p. first_violation c = Some p \<and> e = ConfigurationException p)"
    by (auto simp: validate_first_violation [of c] split: option.splits)
next
  assume v: "validate c = Inr l"
  then have n: "first_violation c = None"
    by (auto simp: validate_first_violation [of c] split: option.splits)
  with v have l: "l = \<lparr>project_id = str_of (attr_or PyNone (cfg_project_id c)),
           dataset_name = str_of (attr_or PyNone (cfg_dataset_name c)),
           table_name = str_of (attr_or PyNone (cfg_table_name c)),
           columns = list_of (attr_or PyNone (cfg_columns c)),
           max_batches = int_of (attr_or (PyInt 3) (cfg_max_batches c)),
           POINTER_PATH = attr_or PyNone (cfg_pointer_path c),
           time_format = str_of (attr_or (PyStr ''microseconds'') (cfg_time_format c))\<rparr>"
    by (simp add: validate_first_violation [of c])
  from no_violation [OF n] obtain p d t cs path where
    h: "cfg_project_id c = Some (PyStr p)" "cfg_dataset_name c = Some (PyStr d)"
       "cfg_table_name c = Some (PyStr t)" "cfg_columns c = Some (PyList cs)"
       "cfg_pointer_path c = Some path" "truthy path"
       "is_int (attr_or (PyInt 3) (cfg_max_batches c))"
       "0 < int_of (attr_or (PyInt 3) (cfg_max_batches c))"
       "attr_or (PyStr ''microseconds'') (cfg_time_format c) = PyStr ''microseconds''
         \<or> attr_or (PyStr ''microseconds'') (cfg_time_format c) = PyStr ''timestamp''"
    by blast
  show "cfg_project_id c = Some (PyStr (project_id l))" using h l by (simp add: attr_or_def)
  show "cfg_dataset_name c = Some (PyStr (dataset_name l))" using h l by (simp add: attr_or_def)
  show "cfg_table_name c = Some (PyStr (table_name l))" using h l by (simp add: attr_or_def)
  show "cfg_columns c = Some (PyList (columns l))" using h l by (simp add: attr_or_def)
  show "is_int (attr_or (PyInt 3) (cfg_max_batches c))" using h by simp
  show "int_of (attr_or (PyInt 3) (cfg_max_batches c)) = max_batches l" using l by simp
  show "0 < max_batches l" using h l by simp
  show "cfg_pointer_path c = Some (POINTER_PATH l)" using h l by (simp add: attr_or_def)
  show "truthy (POINTER_PATH l)" using h l by (simp add: attr_or_def)
  show "attr_or (PyStr ''microseconds'') (cfg_time_format c) = PyStr (time_format l)"
    using h(9) l by auto
  show "time_format l = ''microseconds'' \<or> time_format l = ''timestamp''"
    using h(9) l by auto
qed

text \<open>
  The amended C4 at a configuration with an empty \<^verbatim>\<open>project_id\<close>, which is accepted, and
  at one with \<^verbatim>\<open>max_batches = 0\<close> and \<^verbatim>\<open>columns = None\<close>, rejected for \<^verbatim>\<open>max_batches\<close>.
\<close>

theorem validate_accepts_witness:
  "validate (sample_configuration\<lparr>cfg_project_id := Some (PyStr [])\<rparr>)
     = Inr \<lparr>project_id = [], dataset_name = ''audit'', table_name = ''events'',
            columns = [PyStr ''ts'', PyStr ''actor''],
            max_batches = 3, POINTER_PATH = PyStr ''ts'', time_format = ''microseconds''\<rparr>
   \<and> cfg_project_id (sample_configuration\<lparr>cfg_project_id := Some (PyStr [])\<rparr>) = Some (PyStr [])
   \<and> validate (sample_configuration\<lparr>cfg_max_batches := Some (PyInt 0), cfg_columns := Some PyNone\<rparr>)
     = Inl (ConfigurationException MaxBatchesNotPositive)
   \<and> first_violation (sample_configuration\<lparr>cfg_max_batches := Some (PyInt 0), cfg_columns := Some PyNone\<rparr>)
     = Some MaxBatchesNotPositive"
proof -
  let ?c = "sample_configuration\<lparr>cfg_project_id := Some (PyStr [])\<rparr>"
  let ?l = "\<lparr>project_id = [], dataset_name = ''audit'', table_name = ''events'',
            columns = [PyStr ''ts'', PyStr ''actor''],
            max_batches = 3, POINTER_PATH = PyStr ''ts'', time_format = ''microseconds''\<rparr>"
  let ?d = "sample_configuration\<lparr>cfg_max_batches := Some (PyInt 0), cfg_columns := Some PyNone\<rparr>"
  have a: "validate ?c = Inr ?l"
    by (simp add: validate_def check_values_def sample_configuration_def)
  have b: "validate ?d = Inl (ConfigurationException MaxBatchesNotPositive)"
    by (simp add: validate_def check_values_def sample_configuration_def)
  from validate_accepts [of ?c ?l] a have "cfg_project_id ?c = Some (PyStr [])"
    by simp
  moreover from validate_accepts [of ?d _ "ConfigurationException MaxBatchesNotPositive"] b
  have "first_violation ?d = Some MaxBatchesNotPositive"
    by simp
  ultimately show ?thesis using a b by simp
qed

subsection \<open>Resolving the pointer\<close>

lemma warm_start_caught: "warm_start env tf stored = Inl e \<Longrightarrow> caught e"
  by (auto simp: warm_start_def check_pointer_def split: option.splits if_splits)

lemma resolve_pointer_total: "\<exists>u p. resolve_pointer env tf stored = Inr (u, p)"
proof (cases "warm_start env tf stored")
  case (Inl e)
  then show ?thesis
    using warm_start_caught [OF Inl]
    by (cases "cold_start env tf") (simp add: resolve_pointer_def)
next
  case (Inr r)
  then show ?thesis by (cases r) (simp add: resolve_pointer_def)
qed

lemma resolve_pointer_cold:
  "warm_start env tf stored = Inl e \<Longrightarrow> resolve_pointer env tf stored = Inr (cold_start env tf)"
  using warm_start_caught [of env tf stored e] by (simp add: resolve_pointer_def)

lemma resolve_pointer_microseconds:
  assumes r: "resolve_pointer env ''microseconds'' stored = Inr (u, p)"
  shows "\<exists>n. u = Some n \<and> p = str_int n"
proof (cases "warm_start env ''microseconds'' stored")
  case (Inl e)
  with resolve_pointer_cold [OF Inl] r show ?thesis
    by (simp add: cold_start_def)
next
  case (Inr w)
  then have "resolve_pointer env ''microseconds'' stored = Inr w"
    by (simp add: resolve_pointer_def)
  with r have w: "warm_start env ''microseconds'' stored = Inr (u, p)"
    using Inr by simp
  show ?thesis
  proof (cases stored)
    case None
    with w show ?thesis by (simp add: warm_start_def)
  next
    case (Some s)
    with w obtain n where "py_int s = Some n" "u = Some n" "p = str_int n"
      by (cases "py_int s") (simp_all add: warm_start_def split: option.splits)
    then show ?thesis by simp
  qed
qed

lemma resolve_pointer_env:
  "resolve_pointer (env\<lparr>execute := f, save_raises := g\<rparr>) tf stored = resolve_pointer env tf stored"
proof -
  have "\<And>s. check_pointer (env\<lparr>execute := f, save_raises := g\<rparr>) tf s = check_pointer env tf s"
    by (simp add: check_pointer_def)
  then have "warm_start (env\<lparr>execute := f, save_raises := g\<rparr>) tf stored = warm_start env tf stored"
    by (cases stored) (simp_all add: warm_start_def)
  moreover have "cold_start (env\<lparr>execute := f, save_raises := g\<rparr>) tf = cold_start env tf"
    by (simp add: cold_start_def week_ago_def)
  ultimately show ?thesis by (simp add: resolve_pointer_def split: sum.splits)
qed

text \<open>
  The stored pointers that give the cold start: none at all, under \<^verbatim>\<open>microseconds\<close> a
  string that \<^verbatim>\<open>int()\<close> rejects (a blank one included), and under any other format a
  string that is not blank and that \<^verbatim>\<open>fromisoformat\<close> rejects.
\<close>

lemma unusable_pointer_cold_start:
  "resolve_pointer env tf None = Inr (cold_start env tf)"
  "py_int s = None \<Longrightarrow>
     resolve_pointer env ''microseconds'' (Some s) = Inr (cold_start env ''microseconds'')"
  "tf \<noteq> ''microseconds'' \<Longrightarrow> strip s \<noteq> [] \<Longrightarrow>
     \<not> fromisoformat env (replace ''+00'' ''+00:00'' s) \<Longrightarrow>
     resolve_pointer env tf (Some s) = Inr (cold_start env tf)"
  by (auto simp: resolve_pointer_def warm_start_def check_pointer_def strip_def)

text \<open>
  The value of the cold start, what \<^verbatim>\<open>strip\<close> leaves of a string, and what the
  replacement of \<^verbatim>\<open>+00\<close> by \<^verbatim>\<open>+00:00\<close> makes of a string whose only \<^verbatim>\<open>+00\<close> is the one
  shown.
\<close>

lemma cold_start_value:
  "cold_start env tf =
     (Some (timestamp_usec env (utcnow env - 604800000000)),
      if tf = ''microseconds'' then str_int (timestamp_usec env (utcnow env - 604800000000))
      else strftime env (utcnow env - 604800000000))"
  by (simp add: cold_start_def week_ago_def)

lemma strip_Nil_iff: "strip s = [] \<longleftrightarrow> (\<forall>c \<in> set s. is_space c)"
proof
  assume "\<forall>c \<in> set s. is_space c"
  then show "strip s = []" by (auto simp: strip_def dest: set_dropWhileD)
next
  assume "strip s = []"
  then have a: "\<forall>c \<in> set (dropWhile is_space s). is_space c"
    by (simp add: strip_def)
  have "dropWhile is_space s = []"
  proof (rule ccontr)
    assume n: "dropWhile is_space s \<noteq> []"
    then have "\<not> is_space (hd (dropWhile is_space s))" by (rule hd_dropWhile)
    moreover from n have "hd (dropWhile is_space s) \<in> set (dropWhile is_space s)" by simp
    ultimately show False using a by blast
  qed
  then show "\<forall>c \<in> set s. is_space c" by simp
qed

lemma strip_plus: "strip (t @ CHR ''+'' # r) \<noteq> []"
  by (simp add: strip_Nil_iff is_space_def)

lemma replace_no_occurrence: "\<not> occurs old s \<Longrightarrow> replace old new s = s"
  by (induction s) simp_all

lemma replace_plus00:
  "\<not> occurs ''+00'' t \<Longrightarrow>
   replace ''+00'' ''+00:00'' (t @ ''+00'' @ r) = t @ ''+00:00'' @ replace ''+00'' ''+00:00'' r"
proof (induction t)
  case Nil
  show ?case by simp
next
  case (Cons c cs)
  then have n: "take (length ''+00'') (c # cs) \<noteq> ''+00''" and o: "\<not> occurs ''+00'' cs"
    by simp_all
  have k: "take (length ''+00'') ((c # cs) @ ''+00'' @ r) \<noteq> ''+00''"
  proof (cases cs)
    case Nil
    then show ?thesis by simp
  next
    case a: (Cons d ds)
    show ?thesis
    proof (cases ds)
      case Nil
      with a show ?thesis by simp
    next
      case (Cons e es)
      with a n show ?thesis by simp
    qed
  qed
  have "replace ''+00'' ''+00:00'' ((c # cs) @ ''+00'' @ r)
      = c # replace ''+00'' ''+00:00'' (cs @ ''+00'' @ r)"
    using k by auto
  with Cons.IH [OF o] show ?case by simp
qed

lemma timestamp_kept:
  "fromisoformat env (replace ''+00'' ''+00:00'' s) \<Longrightarrow>
   resolve_pointer env ''timestamp'' (Some s) = Inr (None, s)"
  by (simp add: resolve_pointer_def warm_start_def check_pointer_def)

lemma timestamp_cold:
  "strip s \<noteq> [] \<Longrightarrow> \<not> fromisoformat env (replace ''+00'' ''+00:00'' s) \<Longrightarrow>
   resolve_pointer env ''timestamp'' (Some s) = Inr (cold_start env ''timestamp'')"
  by (auto simp: resolve_pointer_def warm_start_def check_pointer_def strip_def)

text \<open>
  C6, as the claim states it, fails under \<^verbatim>\<open>timestamp\<close>: the stored pointer
  \<^verbatim>\<open>2024-01-01 00:00:00+0000\<close> is a UTC timestamp that \<^verbatim>\<open>fromisoformat\<close> accepts, but the
  replacement turns it into \<^verbatim>\<open>2024-01-01 00:00:00+00:0000\<close>, which is rejected, and the
  pointer is reset to the default window instead of being kept.
\<close>

theorem basic_offset_timestamp_cold_start:
  "fromisoformat (test_env (\<lambda>i. None)) ''2024-01-01 00:00:00+0000''
   \<and> resolve_pointer (test_env (\<lambda>i. None)) ''timestamp'' (Some ''2024-01-01 00:00:00+0000'')
       = Inr (Some 1699395200000000, ''2023-11-07 22:13:20+00'')"
  by (simp add: resolve_pointer_def warm_start_def check_pointer_def
      cold_start_def week_ago_def test_env_def eval_simps)

text \<open>
  C6, amended. Under \<^verbatim>\<open>microseconds\<close>, for every integer \<open>n \<ge> 0\<close> the stored pointer
  \<^verbatim>\<open>str(n)\<close> resolves to the native pointer \<open>n\<close> and \<^verbatim>\<open>self.pointer\<close> is assigned
  \<^verbatim>\<open>str(n)\<close> again. Under \<^verbatim>\<open>timestamp\<close>, a stored string that is not blank is assigned to
  \<^verbatim>\<open>self.pointer\<close> unchanged exactly when \<^verbatim>\<open>fromisoformat\<close> accepts it after every
  \<^verbatim>\<open>+00\<close> in it has been replaced by \<^verbatim>\<open>+00:00\<close>. For a string \<open>t\<close> without \<^verbatim>\<open>+00\<close>:
  \<open>t\<close> is kept when \<^verbatim>\<open>fromisoformat\<close> accepts \<open>t\<close>; \<open>t\<close> with the shorthand \<^verbatim>\<open>+00\<close> is
  kept when it accepts \<open>t\<close> with \<^verbatim>\<open>+00:00\<close>; \<open>t\<close> with \<^verbatim>\<open>+00:00\<close> is kept when it
  accepts \<open>t\<close> with \<^verbatim>\<open>+00:00:00\<close>; and \<open>t\<close> with \<^verbatim>\<open>+0000\<close> gets the cold start when it
  rejects \<open>t\<close> with \<^verbatim>\<open>+00:0000\<close>.
\<close>

theorem warm_start_round_trip:
  "(0 \<le> n \<longrightarrow> resolve_pointer env ''microseconds'' (Some (str_int n)) = Inr (Some n, str_int n))
   \<and> (strip s \<noteq> [] \<longrightarrow>
        (resolve_pointer env ''timestamp'' (Some s) = Inr (None, s)
           \<longleftrightarrow> fromisoformat env (replace ''+00'' ''+00:00'' s)))
   \<and> (\<not> occurs ''+00'' t \<and> fromisoformat env t \<longrightarrow>
        resolve_pointer env ''timestamp'' (Some t) = Inr (None, t))
   \<and> (\<not> occurs ''+00'' t \<and> fromisoformat env (t @ ''+00:00'') \<longrightarrow>
        resolve_pointer env ''timestamp'' (Some (t @ ''+00'')) = Inr (None, t @ ''+00''))
   \<and> (\<not> occurs ''+00'' t \<and> fromisoformat env (t @ ''+00:00:00'') \<longrightarrow>
        resolve_pointer env ''timestamp'' (Some (t @ ''+00:00'')) = Inr (None, t @ ''+00:00''))
   \<and> (\<not> occurs ''+00'' t \<and> \<not> fromisoformat env (t @ ''+00:0000'') \<longrightarrow>
        resolve_pointer env ''timestamp'' (Some (t @ ''+0000''))
          = Inr (Some (timestamp_usec env (utcnow env - 604800000000)),
                 strftime env (utcnow env - 604800000000)))"
proof (intro conjI impI)
  assume "0 \<le> n"
  show "resolve_pointer env ''microseconds'' (Some (str_int n)) = Inr (Some n, str_int n)"
    by (simp add: resolve_pointer_def warm_start_def check_pointer_def py_int_str_int)
next
  assume b: "strip s \<noteq> []"
  show "resolve_pointer env ''timestamp'' (Some s) = Inr (None, s)
           \<longleftrightarrow> fromisoformat env (replace ''+00'' ''+00:00'' s)"
  proof (cases "fromisoformat env (replace ''+00'' ''+00:00'' s)")
    case True
    then show ?thesis by (simp add: timestamp_kept)
  next
    case False
    with timestamp_cold [OF b False] show ?thesis by (simp add: cold_start_value)
  qed
next
  assume "\<not> occurs ''+00'' t \<and> fromisoformat env t"
  then show "resolve_pointer env ''timestamp'' (Some t) = Inr (None, t)"
    by (simp add: timestamp_kept replace_no_occurrence)
next
  assume a: "\<not> occurs ''+00'' t \<and> fromisoformat env (t @ ''+00:00'')"
  then have "replace ''+00'' ''+00:00'' (t @ ''+00'') = t @ ''+00:00''"
    using replace_plus00 [of t "[]"] by simp
  with a show "resolve_pointer env ''timestamp'' (Some (t @ ''+00'')) = Inr (None, t @ ''+00'')"
    by (simp add: timestamp_kept)
next
  assume a: "\<not> occurs ''+00'' t \<and> fromisoformat env (t @ ''+00:00:00'')"
  then have "replace ''+00'' ''+00:00'' (t @ ''+00:00'') = t @ ''+00:00:00''"
    using replace_plus00 [of t "'':00''"] by simp
  with a show "resolve_pointer env ''timestamp'' (Some (t @ ''+00:00'')) = Inr (None, t @ ''+00:00'')"
    by (simp add: timestamp_kept)
next
  assume a: "\<not> occurs ''+00'' t \<and> \<not> fromisoformat env (t @ ''+00:0000'')"
  then have r: "replace ''+00'' ''+00:00'' (t @ ''+0000'') = t @ ''+00:0000''"
    using replace_plus00 [of t "''00''"] by simp
  have "strip (t @ ''+0000'') \<noteq> []"
    using strip_plus [of t "''0000''"] by simp
  moreover from a r have "\<not> fromisoformat env (replace ''+00'' ''+00:00'' (t @ ''+0000''))"
    by simp
  ultimately have "resolve_pointer env ''timestamp'' (Some (t @ ''+0000''))
      = Inr (cold_start env ''timestamp'')"
    by (rule timestamp_cold)
  then show "resolve_pointer env ''timestamp'' (Some (t @ ''+0000''))
          = Inr (Some (timestamp_usec env (utcnow env - 604800000000)),
                 strftime env (utcnow env - 604800000000))"
    by (simp add: cold_start_value)
qed

text \<open>
  The amended C6 at the pointer \<^verbatim>\<open>42\<close> and at the spellings of midnight, 1 January 2024,
  without offset and with the offsets \<^verbatim>\<open>+00\<close>, \<^verbatim>\<open>+00:00\<close> and \<^verbatim>\<open>+0000\<close>.
\<close>

theorem warm_start_round_trip_witness:
  "(0::int) \<le> 42
   \<and> resolve_pointer (test_env (\<lambda>i. None)) ''microseconds'' (Some ''42'') = Inr (Some 42, ''42'')
   \<and> strip ''2024-01-01 00:00:00+00'' \<noteq> []
   \<and> fromisoformat (test_env (\<lambda>i. None)) (replace ''+00'' ''+00:00'' ''2024-01-01 00:00:00+00'')
   \<and> resolve_pointer (test_env (\<lambda>i. None)) ''timestamp'' (Some ''2024-01-01 00:00:00+00'')
       = Inr (None, ''2024-01-01 00:00:00+00'')
   \<and> \<not> occurs ''+00'' ''2024-01-01 00:00:00''
   \<and> fromisoformat (test_env (\<lambda>i. None)) ''2024-01-01 00:00:00''
   \<and> resolve_pointer (test_env (\<lambda>i. None)) ''timestamp'' (Some ''2024-01-01 00:00:00'')
       = Inr (None, ''2024-01-01 00:00:00'')
   \<and> fromisoformat (test_env (\<lambda>i. None)) ''2024-01-01 00:00:00+00:00''
   \<and> fromisoformat (test_env (\<lambda>i. None)) ''2024-01-01 00:00:00+00:00:00''
   \<and> resolve_pointer (test_env (\<lambda>i. None)) ''timestamp'' (Some ''2024-01-01 00:00:00+00:00'')
       = Inr (None, ''2024-01-01 00:00:00+00:00'')
   \<and> \<not> fromisoformat (test_env (\<lambda>i. None)) ''2024-01-01 00:00:00+00:0000''
   \<and> resolve_pointer (test_env (\<lambda>i. None)) ''timestamp'' (Some ''2024-01-01 00:00:00+0000'')
       = Inr (Some 1699395200000000, ''2023-11-07 22:13:20+00'')"
proof -
  let ?E = "test_env (\<lambda>i. None) :: nat env"
  have i: "str_int 42 = ''42''"
    by (simp add: eval_simps)
  have b: "strip ''2024-01-01 00:00:00+00'' \<noteq> []"
    by (simp add: strip_def is_space_def)
  have r: "fromisoformat ?E (replace ''+00'' ''+00:00'' ''2024-01-01 00:00:00+00'')"
    by (simp add: test_env_def)
  have o: "\<not> occurs ''+00'' ''2024-01-01 00:00:00''"
    by simp
  have f: "fromisoformat ?E ''2024-01-01 00:00:00''"
    "fromisoformat ?E (''2024-01-01 00:00:00'' @ ''+00:00'')"
    "fromisoformat ?E (''2024-01-01 00:00:00'' @ ''+00:00:00'')"
    "\<not> fromisoformat ?E (''2024-01-01 00:00:00'' @ ''+00:0000'')"
    by (simp_all add: test_env_def)
  have c: "timestamp_usec ?E (utcnow ?E - 604800000000) = 1699395200000000"
    "strftime ?E (utcnow ?E - 604800000000) = ''2023-11-07 22:13:20+00''"
    by (simp_all add: test_env_def)
  from warm_start_round_trip [where n = 42 and env = ?E and s = "''2024-01-01 00:00:00+00''"
      and t = "''2024-01-01 00:00:00''"] b r o f
  have "resolve_pointer ?E ''microseconds'' (Some ''42'') = Inr (Some 42, ''42'')"
    and "resolve_pointer ?E ''timestamp'' (Some ''2024-01-01 00:00:00+00'')
       = Inr (None, ''2024-01-01 00:00:00+00'')"
    and "resolve_pointer ?E ''timestamp'' (Some ''2024-01-01 00:00:00'')
       = Inr (None, ''2024-01-01 00:00:00'')"
    and "resolve_pointer ?E ''timestamp'' (Some ''2024-01-01 00:00:00+00:00'')
       = Inr (None, ''2024-01-01 00:00:00+00:00'')"
    and "resolve_pointer ?E ''timestamp'' (Some ''2024-01-01 00:00:00+0000'')
       = Inr (Some 1699395200000000, ''2023-11-07 22:13:20+00'')"
    by (simp_all add: i c)
  with b r o f show ?thesis by simp
qed

text \<open>
  C8, as the claim states it, fails: under \<^verbatim>\<open>microseconds\<close> the stored pointer \<^verbatim>\<open>-5\<close>,
  which denotes a negative integer, is accepted as a warm start.
\<close>

theorem negative_pointer_warm_start:
  "warm_start (test_env (\<lambda>i. None)) ''microseconds'' (Some ''-5'') = Inr (Some (- 5), ''-5'')"
  by (simp add: warm_start_def check_pointer_def eval_simps)

text \<open>
  C8, amended. Under \<^verbatim>\<open>microseconds\<close>, a stored pointer is accepted as a warm start
  exactly when \<^verbatim>\<open>int()\<close> reads it as an integer, of either sign: that integer is the
  native pointer and its decimal string is assigned to \<^verbatim>\<open>self.pointer\<close>; the decimal
  string of every integer, negative ones included, is read back as that integer. A stored
  string that \<^verbatim>\<open>int()\<close> rejects gives the cold start, with the default-window value.
\<close>

theorem microseconds_warm_start_integer:
  "(warm_start env ''microseconds'' (Some s) = Inr (u, p) \<longrightarrow>
      (\<exists>n. py_int s = Some n \<and> u = Some n \<and> p = str_int n))
   \<and> (py_int s = Some n \<longrightarrow>
        warm_start env ''microseconds'' (Some s) = Inr (Some n, str_int n))
   \<and> (py_int s = None \<longrightarrow>
        resolve_pointer env ''microseconds'' (Some s)
          = Inr (Some (timestamp_usec env (utcnow env - 604800000000)),
                 str_int (timestamp_usec env (utcnow env - 604800000000))))
   \<and> py_int (str_int m) = Some m"
proof (intro conjI impI)
  assume w: "warm_start env ''microseconds'' (Some s) = Inr (u, p)"
  then obtain n where "py_int s = Some n" "u = Some n" "p = str_int n"
    by (cases "py_int s") (simp_all add: warm_start_def split: option.splits)
  then show "\<exists>n. py_int s = Some n \<and> u = Some n \<and> p = str_int n" by simp
next
  assume "py_int s = Some n"
  then show "warm_start env ''microseconds'' (Some s) = Inr (Some n, str_int n)"
    by (simp add: warm_start_def check_pointer_def)
next
  assume "py_int s = None"
  then have "resolve_pointer env ''microseconds'' (Some s) = Inr (cold_start env ''microseconds'')"
    by (rule unusable_pointer_cold_start(2))
  then show "resolve_pointer env ''microseconds'' (Some s)
          = Inr (Some (timestamp_usec env (utcnow env - 604800000000)),
                 str_int (timestamp_usec env (utcnow env - 604800000000)))"
    by (simp add: cold_start_value)
next
  show "py_int (str_int m) = Some m" by (rule py_int_str_int)
qed

text \<open>
  The amended C8 at the stored pointers \<^verbatim>\<open> -5\<close> (warm start), \<^verbatim>\<open>abc\<close> and
  \<^verbatim>\<open>\x1c42\<close> (both rejected by \<^verbatim>\<open>int()\<close>: cold start).
\<close>

theorem microseconds_warm_start_integer_witness:
  "warm_start (test_env (\<lambda>i. None)) ''microseconds'' (Some '' -5'') = Inr (Some (- 5), ''-5'')
   \<and> py_int '' -5'' = Some (- 5)
   \<and> py_int ''abc'' = None
   \<and> resolve_pointer (test_env (\<lambda>i. None)) ''microseconds'' (Some ''abc'')
       = Inr (Some 1699395200000000, ''1699395200000000'')
   \<and> py_int [CHR 0x1C, CHR ''4'', CHR ''2''] = None
   \<and> resolve_pointer (test_env (\<lambda>i. None)) ''microseconds'' (Some [CHR 0x1C, CHR ''4'', CHR ''2''])
       = Inr (Some 1699395200000000, ''1699395200000000'')
   \<and> py_int ''-5'' = Some (- 5)"
proof -
  let ?E = "test_env (\<lambda>i. None) :: nat env"
  have w: "warm_start ?E ''microseconds'' (Some '' -5'') = Inr (Some (- 5), ''-5'')"
    by (simp add: warm_start_def check_pointer_def eval_simps)
  have a: "py_int ''abc'' = None" "py_int [CHR 0x1C, CHR ''4'', CHR ''2''] = None"
    by (simp_all add: eval_simps)
  have c: "timestamp_usec ?E (utcnow ?E - 604800000000) = 1699395200000000"
    by (simp add: test_env_def)
  have s: "str_int 1699395200000000 = ''1699395200000000''" "str_int (- 5) = ''-5''"
    by (simp_all add: eval_simps)
  from microseconds_warm_start_integer
    [where env = ?E and s = "'' -5''" and u = "Some (- 5)" and p = "''-5''" and n = "- 5"
      and m = "- 5"] w s
  have "py_int '' -5'' = Some (- 5)" "py_int ''-5'' = Some (- 5)" by auto
  moreover from microseconds_warm_start_integer [where env = ?E and s = "''abc''"] a c s
  have "resolve_pointer ?E ''microseconds'' (Some ''abc'')
       = Inr (Some 1699395200000000, ''1699395200000000'')" by simp
  moreover from microseconds_warm_start_integer
    [where env = ?E and s = "[CHR 0x1C, CHR ''4'', CHR ''2'']"] a c s
  have "resolve_pointer ?E ''microseconds'' (Some [CHR 0x1C, CHR ''4'', CHR ''2''])
       = Inr (Some 1699395200000000, ''1699395200000000'')" by simp
  ultimately show ?thesis using w a by simp
qed

text \<open>
  C2 at a blank stored pointer. Under \<^verbatim>\<open>timestamp\<close> the blank string is kept as the
  pointer and \<^verbatim>\<open>pointer_epoch_usec\<close> stays unbound: the cold start, which would give the
  instant seven days before the clock reading, is not taken. Under \<^verbatim>\<open>microseconds\<close> the
  same stored pointer gives the cold start.
\<close>

theorem blank_timestamp_pointer_kept:
  "resolve_pointer (test_env (\<lambda>i. None)) ''timestamp'' (Some ''  '') = Inr (None, ''  '')
   \<and> cold_start (test_env (\<lambda>i. None)) ''timestamp''
       = (Some 1699395200000000, ''2023-11-07 22:13:20+00'')
   \<and> resolve_pointer (test_env (\<lambda>i. None)) ''microseconds'' (Some ''  '')
       = Inr (cold_start (test_env (\<lambda>i. None)) ''microseconds'')"
  by (simp add: resolve_pointer_def warm_start_def check_pointer_def
      cold_start_def week_ago_def test_env_def eval_simps)

subsection \<open>The paging loop\<close>

declare paging_loop.simps [simp del]

lemma fetched_append: "fetched (xs @ ys) = fetched xs @ fetched ys"
  by (induction xs rule: fetched.induct) simp_all

lemma saved_append: "saved (xs @ ys) = saved xs @ saved ys"
  by (induction xs rule: saved.induct) simp_all

lemma loop_body_cases:
  obtains
    (build) e where "build_query env l u p = Inl e"
      "loop_body env l u p i all_rows bc = Leave (Some e) []"
  | (failed) q where "build_query env l u p = Inr q" "execute env i q = None"
      "loop_body env l u p i all_rows bc = Leave (Some RequestFailedException) [Query q None]"
  | (empty) q where "build_query env l u p = Inr q" "execute env i q = Some []"
      "loop_body env l u p i all_rows bc = Leave None [Query q (Some [])]"
  | (flush) q rows where "build_query env l u p = Inr q" "execute env i q = Some rows"
      "rows \<noteq> []" "int (bc + 1) \<ge> max_batches l \<or> length rows < 1000"
      "loop_body env l u p i all_rows bc =
         Leave (if save_raises env (all_rows @ rows) then Some RequestFailedException else None)
           [Query q (Some rows), Save (all_rows @ rows)]"
  | (again) q rows where "build_query env l u p = Inr q" "execute env i q = Some rows"
      "rows \<noteq> []" "int (bc + 1) < max_batches l" "1000 \<le> length rows"
      "loop_body env l u p i all_rows bc = Again [Query q (Some rows)] (all_rows @ rows)"
proof (cases "build_query env l u p")
  case (Inl e)
  then show ?thesis using build by (simp add: loop_body_def)
next
  case q: (Inr q)
  show ?thesis
  proof (cases "execute env i q")
    case None
    with q show ?thesis using failed by (simp add: loop_body_def)
  next
    case (Some rows)
    show ?thesis
    proof (cases "rows = []")
      case True
      with q Some show ?thesis using empty by (simp add: loop_body_def)
    next
      case False
      show ?thesis
      proof (cases "int (bc + 1) \<ge> max_batches l \<or> length rows < 1000")
        case True
        with q Some False show ?thesis using flush [of q rows]
          by (simp add: loop_body_def)
      next
        case f: False
        with q Some False show ?thesis using again [of q rows]
          by (simp add: loop_body_def)
      qed
    qed
  qed
qed

lemma paging_loop_Leave:
  "loop_body env l u p i all_rows bc = Leave out evs \<Longrightarrow>
   paging_loop env l u p i all_rows bc = (out, evs)"
  by (simp add: paging_loop.simps [of env l u p i all_rows bc])

lemma paging_loop_Again:
  "loop_body env l u p i all_rows bc = Again evs all_rows' \<Longrightarrow>
   paging_loop env l u p i all_rows bc =
     (fst (paging_loop env l u p (i + 1) all_rows' (bc + 1)),
      evs @ snd (paging_loop env l u p (i + 1) all_rows' (bc + 1)))"
  by (simp add: paging_loop.simps [of env l u p i all_rows bc] split: prod.splits)

text \<open>Every event of the loop is a query with the one text, or a save.\<close>

lemma paging_loop_events:
  "build_query env l u p = Inr q \<Longrightarrow>
   \<forall>e \<in> set (snd (paging_loop env l u p i all_rows bc)).
     (\<exists>r. e = Query q r) \<or> (\<exists>rows. e = Save rows)"
proof (induction env l u p i all_rows bc rule: paging_loop.induct)
  case (1 env l u p i all_rows bc)
  show ?case
  proof (cases rule: loop_body_cases [of env l u p i all_rows bc])
    case (build e)
    then show ?thesis by (simp add: paging_loop_Leave)
  next
    case (failed q')
    with "1.prems" show ?thesis by (simp add: paging_loop_Leave)
  next
    case (empty q')
    with "1.prems" show ?thesis by (simp add: paging_loop_Leave)
  next
    case (flush q' rows)
    with "1.prems" show ?thesis by (simp add: paging_loop_Leave)
  next
    case (again q' rows)
    from "1.IH" [OF again(6) "1.prems"] again "1.prems" show ?thesis
      by (auto simp: paging_loop_Again)
  qed
qed

lemma paging_loop_build_error:
  "build_query env l u p = Inl e \<Longrightarrow> paging_loop env l u p i all_rows bc = (Some e, [])"
  by (simp add: paging_loop.simps [of env l u p i all_rows bc] loop_body_def)

text \<open>A page that fails ends the run with the error and without a save.\<close>

lemma paging_loop_failed:
  "Query q None \<in> set (snd (paging_loop env l u p i all_rows bc)) \<Longrightarrow>
   fst (paging_loop env l u p i all_rows bc) = Some RequestFailedException
   \<and> saved (snd (paging_loop env l u p i all_rows bc)) = []"
proof (induction env l u p i all_rows bc rule: paging_loop.induct)
  case (1 env l u p i all_rows bc)
  show ?case
  proof (cases rule: loop_body_cases [of env l u p i all_rows bc])
    case (build e)
    with "1.prems" show ?thesis by (simp add: paging_loop_Leave)
  next
    case (failed q')
    then show ?thesis by (simp add: paging_loop_Leave)
  next
    case (empty q')
    with "1.prems" show ?thesis by (simp add: paging_loop_Leave)
  next
    case (flush q' rows)
    with "1.prems" show ?thesis by (simp add: paging_loop_Leave)
  next
    case (again q' rows)
    with "1.prems" have "Query q None \<in> set (snd (paging_loop env l u p (i + 1) (all_rows @ rows) (bc + 1)))"
      by (simp add: paging_loop_Again)
    from "1.IH" [OF again(6) this] again show ?thesis
      by (simp add: paging_loop_Again saved_append)
  qed
qed

text \<open>The number of fetches is bounded.\<close>

lemma paging_loop_fetches:
  "length (fetched (snd (paging_loop env l u p i all_rows bc)))
     \<le> max 1 (nat (max_batches l - int bc))"
proof (induction env l u p i all_rows bc rule: paging_loop.induct)
  case (1 env l u p i all_rows bc)
  show ?case
  proof (cases rule: loop_body_cases [of env l u p i all_rows bc])
    case (build e)
    then show ?thesis by (simp add: paging_loop_Leave)
  next
    case (failed q')
    then show ?thesis by (simp add: paging_loop_Leave)
  next
    case (empty q')
    then show ?thesis by (simp add: paging_loop_Leave)
  next
    case (flush q' rows)
    then show ?thesis by (simp add: paging_loop_Leave)
  next
    case (again q' rows)
    from "1.IH" [OF again(6)] again show ?thesis
      by (simp add: paging_loop_Again fetched_append)
  qed
qed

text \<open>A run of full pages up to the batch limit.\<close>

lemma paging_loop_full_pages:
  "build_query env l u p = Inr q \<Longrightarrow>
   \<forall>j. i \<le> j \<and> j < i + k \<longrightarrow> execute env j q = Some (P j) \<and> 1000 \<le> length (P j) \<Longrightarrow>
   0 < k \<Longrightarrow> max_batches l = int (bc + k) \<Longrightarrow>
   paging_loop env l u p i all_rows bc =
     (if save_raises env (all_rows @ concat (map P [i..<i + k]))
      then Some RequestFailedException else None,
      map (\<lambda>j. Query q (Some (P j))) [i..<i + k] @ [Save (all_rows @ concat (map P [i..<i + k]))])"
proof (induction k arbitrary: i all_rows bc)
  case 0
  then show ?case by simp
next
  case (Suc k)
  from Suc.prems(2) have e: "execute env i q = Some (P i)" and n: "1000 \<le> length (P i)"
    by simp_all
  from n have ne: "P i \<noteq> []" and nl: "\<not> length (P i) < 1000" by auto
  show ?case
  proof (cases "k = 0")
    case True
    with Suc.prems(1,4) e nl ne have "loop_body env l u p i all_rows bc =
        Leave (if save_raises env (all_rows @ P i) then Some RequestFailedException else None)
          [Query q (Some (P i)), Save (all_rows @ P i)]"
      by (simp add: loop_body_def)
    with True show ?thesis by (simp add: paging_loop_Leave)
  next
    case False
    with Suc.prems(1,4) e nl ne have b: "loop_body env l u p i all_rows bc =
        Again [Query q (Some (P i))] (all_rows @ P i)"
      by (simp add: loop_body_def)
    have "paging_loop env l u p (i + 1) (all_rows @ P i) (bc + 1) =
     (if save_raises env ((all_rows @ P i) @ concat (map P [i + 1..<i + 1 + k]))
      then Some RequestFailedException else None,
      map (\<lambda>j. Query q (Some (P j))) [i + 1..<i + 1 + k]
        @ [Save ((all_rows @ P i) @ concat (map P [i + 1..<i + 1 + k]))])"
      using Suc.prems False by (intro Suc.IH) auto
    moreover have "[i..<i + Suc k] = i # [i + 1..<i + 1 + k]"
      by (simp add: upt_conv_Cons)
    ultimately show ?thesis
      by (simp add: paging_loop_Again [OF b])
  qed
qed

subsection \<open>The run\<close>

text \<open>A run that gets as far as the pointer.\<close>

lemma collect_run:
  assumes "validate c = Inr l" "make_client env = Inr ()"
  obtains u p where "resolve_pointer env (time_format l) stored = Inr (u, p)"
    "collect env c stored =
       \<lparr>outcome = fst (paging_loop env l u p 0 [] 0), pointer = Some p,
        events = SetPointer p # snd (paging_loop env l u p 0 [] 0)\<rparr>"
proof -
  obtain u p where r: "resolve_pointer env (time_format l) stored = Inr (u, p)"
    using resolve_pointer_total by blast
  with assms have "collect env c stored =
       \<lparr>outcome = fst (paging_loop env l u p 0 [] 0), pointer = Some p,
        events = SetPointer p # snd (paging_loop env l u p 0 [] 0)\<rparr>"
    by (simp add: collect_def split: prod.splits)
  with r show ?thesis by (rule that)
qed

text \<open>A run that leaves an event got as far as the pointer.\<close>

lemma collect_events:
  assumes "events (collect env c stored) \<noteq> []"
  obtains l where "validate c = Inr l" "make_client env = Inr ()"
proof -
  from assms obtain l where l: "validate c = Inr l"
    by (cases "validate c") (auto simp: collect_def)
  with assms have "make_client env = Inr ()"
    by (cases "make_client env") (auto simp: collect_def)
  with l show ?thesis by (rule that)
qed

lemma build_query_text:
  "build_query env l u p = Inr q \<Longrightarrow>
   \<exists>cols bound.
     join_columns (columns l) = Inr cols
     \<and> (if time_format l = ''microseconds'' then \<exists>n. u = Some n \<and> bound = str_int n
         else bound = ''TIMESTAMP('' @ [CHR 0x27] @ p @ [CHR 0x27] @ '')'')
     \<and> q = [CHR 0x0A] @ ''            SELECT '' @ cols
          @ [CHR 0x0A] @ ''            FROM `'' @ project_id l @ ''.'' @ dataset_name l @ ''.'' @ table_name l @ ''`''
          @ [CHR 0x0A] @ ''            WHERE '' @ format_value env (POINTER_PATH l) @ '' > '' @ bound
          @ [CHR 0x0A] @ ''            AND '' @ format_value env (POINTER_PATH l) @ '' IS NOT NULL''
          @ [CHR 0x0A] @ ''            ORDER BY '' @ format_value env (POINTER_PATH l) @ '' ASC''
          @ [CHR 0x0A] @ ''            LIMIT 1000''
          @ [CHR 0x0A] @ ''            ''"
  by (auto simp: build_query_def where_clause_def split: sum.splits option.splits if_splits)


lemmas run_simps = collect_def validate_def check_values_def make_client_def
  get_credentials_def resolve_pointer_def warm_start_def check_pointer_def cold_start_def
  week_ago_def build_query_def where_clause_def join_columns_def format_value_def
  loop_body_def test_env_def sample_configuration_def eval_simps

lemma fetched_None: "None \<in> set (fetched evs) \<longleftrightarrow> (\<exists>q. Query q None \<in> set evs)"
  by (induction evs rule: fetched.induct) auto

lemma saved_mem: "rows \<in> set (saved evs) \<longleftrightarrow> Save rows \<in> set evs"
  by (induction evs rule: saved.induct) auto

lemma collect_queries:
  assumes "Query q r \<in> set (events (collect env c stored))"
  obtains l u p where "validate c = Inr l" "make_client env = Inr ()"
    "resolve_pointer env (time_format l) stored = Inr (u, p)"
    "build_query env l u p = Inr q"
    "collect env c stored =
       \<lparr>outcome = fst (paging_loop env l u p 0 [] 0), pointer = Some p,
        events = SetPointer p # snd (paging_loop env l u p 0 [] 0)\<rparr>"
proof -
  from assms have "events (collect env c stored) \<noteq> []" by auto
  then obtain l where l: "validate c = Inr l" "make_client env = Inr ()"
    by (rule collect_events)
  then obtain u p where r: "resolve_pointer env (time_format l) stored = Inr (u, p)"
    and c: "collect env c stored =
       \<lparr>outcome = fst (paging_loop env l u p 0 [] 0), pointer = Some p,
        events = SetPointer p # snd (paging_loop env l u p 0 [] 0)\<rparr>"
    by (rule collect_run)
  from assms c have m: "Query q r \<in> set (snd (paging_loop env l u p 0 [] 0))"
    by simp
  have b: "build_query env l u p = Inr q"
  proof (cases "build_query env l u p")
    case (Inl e)
    with m show ?thesis by (simp add: paging_loop_build_error)
  next
    case (Inr q')
    from paging_loop_events [OF Inr, of 0 "[]" 0] m have "q = q'" by auto
    with Inr show ?thesis by simp
  qed
  from l r b c show ?thesis by (rule that)
qed

text \<open>Runs of the sample configuration from the stored pointer \<^verbatim>\<open>42\<close>.\<close>

lemma sample_validate: "validate sample_configuration = Inr sample_locals"
  by (simp add: validate_def check_values_def sample_configuration_def sample_locals_def)

lemma sample_client: "make_client (test_env pages) = Inr ()"
  by (simp add: make_client_def get_credentials_def test_env_def)

lemma sample_resolve:
  "resolve_pointer (test_env pages) ''microseconds'' (Some ''42'') = Inr (Some 42, ''42'')"
  by (simp add: resolve_pointer_def warm_start_def check_pointer_def eval_simps)

lemma sample_build:
  "build_query (test_env pages) sample_locals (Some 42) ''42'' = Inr sample_query"
  by (simp add: build_query_def where_clause_def join_columns_def format_value_def
      sample_locals_def sample_query_def eval_simps)

lemma sample_collect:
  "collect (test_env pages) sample_configuration (Some ''42'') =
     \<lparr>outcome = fst (paging_loop (test_env pages) sample_locals (Some 42) ''42'' 0 [] 0),
      pointer = Some ''42'',
      events = SetPointer ''42'' # snd (paging_loop (test_env pages) sample_locals (Some 42) ''42'' 0 [] 0)\<rparr>"
proof -
  have t: "time_format sample_locals = ''microseconds''"
    by (simp add: sample_locals_def)
  show ?thesis
    by (simp add: collect_def sample_validate sample_client t sample_resolve split: prod.splits)
qed

lemma sample_empty_page:
  "paging_loop (test_env (\<lambda>i. Some [])) sample_locals (Some 42) ''42'' 0 [] 0
     = (None, [Query sample_query (Some [])])"
  by (simp add: paging_loop.simps [of _ _ _ _ 0 "[]" 0] loop_body_def sample_build)
    (simp add: test_env_def)

text \<open>
  C7. Every query text passed to the client in a run is the text of lines 142 to 149:
  a \<^verbatim>\<open>SELECT\<close> of the joined columns \<^verbatim>\<open>FROM\<close> the back-quoted
  \<^verbatim>\<open>project.dataset.table\<close>, \<^verbatim>\<open>WHERE pointer_path > bound AND pointer_path IS NOT NULL\<close>,
  \<^verbatim>\<open>ORDER BY pointer_path ASC\<close>, \<^verbatim>\<open>LIMIT 1000\<close>, each clause on a line of its own that
  starts with a line feed and twelve spaces, and a last line of twelve spaces. The bound
  is the decimal string of the resolved integer under \<^verbatim>\<open>microseconds\<close> and
  \<^verbatim>\<open>TIMESTAMP('...')\<close> around the resolved pointer string otherwise; the comparison is
  \<^verbatim>\<open>>\<close> and the limit is the constant 1000.
\<close>

theorem query_shape:
  "Query q r \<in> set (events (collect env c stored)) \<longrightarrow>
   (\<exists>l u p cols bound.
      validate c = Inr l
      \<and> resolve_pointer env (time_format l) stored = Inr (u, p)
      \<and> join_columns (columns l) = Inr cols
      \<and> (if time_format l = ''microseconds'' then \<exists>n. u = Some n \<and> bound = str_int n
          else bound = ''TIMESTAMP('' @ [CHR 0x27] @ p @ [CHR 0x27] @ '')'')
      \<and> q = [CHR 0x0A] @ ''            SELECT '' @ cols
           @ [CHR 0x0A] @ ''            FROM `'' @ project_id l @ ''.'' @ dataset_name l @ ''.'' @ table_name l @ ''`''
           @ [CHR 0x0A] @ ''            WHERE '' @ format_value env (POINTER_PATH l) @ '' > '' @ bound
           @ [CHR 0x0A] @ ''            AND '' @ format_value env (POINTER_PATH l) @ '' IS NOT NULL''
           @ [CHR 0x0A] @ ''            ORDER BY '' @ format_value env (POINTER_PATH l) @ '' ASC''
           @ [CHR 0x0A] @ ''            LIMIT 1000''
           @ [CHR 0x0A] @ ''            '')"
proof
  assume "Query q r \<in> set (events (collect env c stored))"
  then obtain l u p where h: "validate c = Inr l"
    "resolve_pointer env (time_format l) stored = Inr (u, p)" "build_query env l u p = Inr q"
    by (rule collect_queries)
  from build_query_text [OF h(3)] h(1,2) show "\<exists>l u p cols bound.
      validate c = Inr l
      \<and> resolve_pointer env (time_format l) stored = Inr (u, p)
      \<and> join_columns (columns l) = Inr cols
      \<and> (if time_format l = ''microseconds'' then \<exists>n. u = Some n \<and> bound = str_int n
          else bound = ''TIMESTAMP('' @ [CHR 0x27] @ p @ [CHR 0x27] @ '')'')
      \<and> q = [CHR 0x0A] @ ''            SELECT '' @ cols
           @ [CHR 0x0A] @ ''            FROM `'' @ project_id l @ ''.'' @ dataset_name l @ ''.'' @ table_name l @ ''`''
           @ [CHR 0x0A] @ ''            WHERE '' @ format_value env (POINTER_PATH l) @ '' > '' @ bound
           @ [CHR 0x0A] @ ''            AND '' @ format_value env (POINTER_PATH l) @ '' IS NOT NULL''
           @ [CHR 0x0A] @ ''            ORDER BY '' @ format_value env (POINTER_PATH l) @ '' ASC''
           @ [CHR 0x0A] @ ''            LIMIT 1000''
           @ [CHR 0x0A] @ ''            ''"
    by blast
qed

text \<open>C7 at the one query of a run whose first page is empty.\<close>

theorem query_shape_witness:
  "Query sample_query (Some []) \<in>
     set (events (collect (test_env (\<lambda>i. Some [])) sample_configuration (Some ''42'')))
   \<and> (\<exists>l u p cols bound.
      validate sample_configuration = Inr l
      \<and> resolve_pointer (test_env (\<lambda>i. Some [])) (time_format l) (Some ''42'') = Inr (u, p)
      \<and> join_columns (columns l) = Inr cols
      \<and> (if time_format l = ''microseconds'' then \<exists>n. u = Some n \<and> bound = str_int n
          else bound = ''TIMESTAMP('' @ [CHR 0x27] @ p @ [CHR 0x27] @ '')'')
      \<and> sample_query = [CHR 0x0A] @ ''            SELECT '' @ cols
           @ [CHR 0x0A] @ ''            FROM `'' @ project_id l @ ''.'' @ dataset_name l @ ''.'' @ table_name l @ ''`''
           @ [CHR 0x0A] @ ''            WHERE '' @ format_value (test_env (\<lambda>i. Some [])) (POINTER_PATH l) @ '' > '' @ bound
           @ [CHR 0x0A] @ ''            AND '' @ format_value (test_env (\<lambda>i. Some [])) (POINTER_PATH l) @ '' IS NOT NULL''
           @ [CHR 0x0A] @ ''            ORDER BY '' @ format_value (test_env (\<lambda>i. Some [])) (POINTER_PATH l) @ '' ASC''
           @ [CHR 0x0A] @ ''            LIMIT 1000''
           @ [CHR 0x0A] @ ''            '')"
proof -
  have h: "Query sample_query (Some []) \<in>
     set (events (collect (test_env (\<lambda>i. Some [])) sample_configuration (Some ''42'')))"
    by (simp add: sample_collect sample_empty_page)
  show ?thesis
    by (rule conjI [OF h mp [OF query_shape h]])
qed

text \<open>
  C10. In every run that passes the configuration block and builds the client, the first
  event is the assignment of the resolved pointer to \<^verbatim>\<open>self.pointer\<close>; it comes before
  every call of the client, no later event assigns the pointer, and the value assigned
  does not depend on what the client returns or on the sink. With no stored pointer the
  value assigned is the default window: the decimal string of \<^verbatim>\<open>pointer_epoch_usec\<close>
  for the instant 7 days (604800000000 microseconds) before the clock reading under
  \<^verbatim>\<open>microseconds\<close>, and the \<^verbatim>\<open>strftime\<close> text of that instant otherwise; every
  exception of the warm start gives these values. A \<^verbatim>\<open>microseconds\<close> warm start assigns
  the decimal string of the integer that \<^verbatim>\<open>int()\<close> reads from the stored pointer.
\<close>

theorem pointer_written_before_first_query:
  "(validate c = Inr l \<and> make_client env = Inr () \<longrightarrow>
      (\<exists>u p evs.
         resolve_pointer env (time_format l) stored = Inr (u, p)
         \<and> resolve_pointer (env\<lparr>execute := f, save_raises := g\<rparr>) (time_format l) stored = Inr (u, p)
         \<and> events (collect env c stored) = SetPointer p # evs
         \<and> (\<forall>e \<in> set evs. (\<exists>q r. e = Query q r) \<or> (\<exists>rows. e = Save rows))
         \<and> pointer (collect env c stored) = Some p))
   \<and> (validate c = Inr l \<and> make_client env = Inr () \<longrightarrow>
      (\<exists>evs. events (collect env c None) =
         SetPointer (if time_format l = ''microseconds''
                     then str_int (timestamp_usec env (utcnow env - 604800000000))
                     else strftime env (utcnow env - 604800000000)) # evs))
   \<and> warm_start env tf None = Inl NotFoundException
   \<and> (warm_start env tf stored = Inl e \<longrightarrow>
        resolve_pointer env tf stored
          = Inr (Some (timestamp_usec env (utcnow env - 604800000000)),
                 if tf = ''microseconds''
                 then str_int (timestamp_usec env (utcnow env - 604800000000))
                 else strftime env (utcnow env - 604800000000)))
   \<and> (py_int s = Some n \<longrightarrow>
        resolve_pointer env ''microseconds'' (Some s) = Inr (Some n, str_int n))"
proof (intro conjI impI)
  assume "validate c = Inr l \<and> make_client env = Inr ()"
  then have a: "validate c = Inr l" "make_client env = Inr ()" by simp_all
  then obtain u p where r: "resolve_pointer env (time_format l) stored = Inr (u, p)"
    and c: "collect env c stored =
       \<lparr>outcome = fst (paging_loop env l u p 0 [] 0), pointer = Some p,
        events = SetPointer p # snd (paging_loop env l u p 0 [] 0)\<rparr>"
    by (rule collect_run)
  have "\<forall>e \<in> set (snd (paging_loop env l u p 0 [] 0)).
      (\<exists>q r. e = Query q r) \<or> (\<exists>rows. e = Save rows)"
  proof (cases "build_query env l u p")
    case (Inl e)
    then show ?thesis by (simp add: paging_loop_build_error)
  next
    case (Inr q)
    from paging_loop_events [OF Inr, of 0 "[]" 0] show ?thesis by blast
  qed
  with r c show "\<exists>u p evs.
         resolve_pointer env (time_format l) stored = Inr (u, p)
         \<and> resolve_pointer (env\<lparr>execute := f, save_raises := g\<rparr>) (time_format l) stored = Inr (u, p)
         \<and> events (collect env c stored) = SetPointer p # evs
         \<and> (\<forall>e \<in> set evs. (\<exists>q r. e = Query q r) \<or> (\<exists>rows. e = Save rows))
         \<and> pointer (collect env c stored) = Some p"
    by (simp add: resolve_pointer_env)
next
  assume "validate c = Inr l \<and> make_client env = Inr ()"
  then have a: "validate c = Inr l" "make_client env = Inr ()" by simp_all
  then obtain u p where r: "resolve_pointer env (time_format l) None = Inr (u, p)"
    and c: "collect env c None =
       \<lparr>outcome = fst (paging_loop env l u p 0 [] 0), pointer = Some p,
        events = SetPointer p # snd (paging_loop env l u p 0 [] 0)\<rparr>"
    by (rule collect_run)
  have "resolve_pointer env (time_format l) None = Inr (cold_start env (time_format l))"
    by (rule unusable_pointer_cold_start(1))
  with r have "p = (if time_format l = ''microseconds''
                     then str_int (timestamp_usec env (utcnow env - 604800000000))
                     else strftime env (utcnow env - 604800000000))"
    by (simp add: cold_start_value)
  with c show "\<exists>evs. events (collect env c None) =
         SetPointer (if time_format l = ''microseconds''
                     then str_int (timestamp_usec env (utcnow env - 604800000000))
                     else strftime env (utcnow env - 604800000000)) # evs"
    by simp
next
  show "warm_start env tf None = Inl NotFoundException"
    by (simp add: warm_start_def)
next
  assume "warm_start env tf stored = Inl e"
  then have "resolve_pointer env tf stored = Inr (cold_start env tf)"
    by (rule resolve_pointer_cold)
  then show "resolve_pointer env tf stored
          = Inr (Some (timestamp_usec env (utcnow env - 604800000000)),
                 if tf = ''microseconds''
                 then str_int (timestamp_usec env (utcnow env - 604800000000))
                 else strftime env (utcnow env - 604800000000))"
    by (simp add: cold_start_value)
next
  assume "py_int s = Some n"
  then show "resolve_pointer env ''microseconds'' (Some s) = Inr (Some n, str_int n)"
    by (simp add: resolve_pointer_def warm_start_def check_pointer_def)
qed

text \<open>C10 at a cold start, and at the stored pointer \<^verbatim>\<open>42\<close>.\<close>

theorem pointer_written_before_first_query_witness:
  "validate sample_configuration = Inr sample_locals
   \<and> make_client (test_env (\<lambda>i. Some [])) = Inr ()
   \<and> (\<exists>u p evs.
         resolve_pointer (test_env (\<lambda>i. Some [])) (time_format sample_locals) None = Inr (u, p)
         \<and> resolve_pointer ((test_env (\<lambda>i. Some []))\<lparr>execute := (\<lambda>i q. None), save_raises := (\<lambda>rows. True)\<rparr>)
             (time_format sample_locals) None = Inr (u, p)
         \<and> events (collect (test_env (\<lambda>i. Some [])) sample_configuration None) = SetPointer p # evs
         \<and> (\<forall>e \<in> set evs. (\<exists>q r. e = Query q r) \<or> (\<exists>rows. e = Save rows))
         \<and> pointer (collect (test_env (\<lambda>i. Some [])) sample_configuration None) = Some p)
   \<and> (\<exists>evs. events (collect (test_env (\<lambda>i. Some [])) sample_configuration None)
         = SetPointer ''1699395200000000'' # evs)
   \<and> warm_start (test_env (\<lambda>i. Some [])) ''microseconds'' None = Inl NotFoundException
   \<and> resolve_pointer (test_env (\<lambda>i. Some [])) ''microseconds'' None
       = Inr (Some 1699395200000000, ''1699395200000000'')
   \<and> py_int ''42'' = Some 42
   \<and> resolve_pointer (test_env (\<lambda>i. Some [])) ''microseconds'' (Some ''42'') = Inr (Some 42, ''42'')"
proof -
  let ?E = "test_env (\<lambda>i. Some []) :: nat env"
  have w: "warm_start ?E ''microseconds'' None = Inl NotFoundException"
    by (simp add: warm_start_def)
  have i: "py_int ''42'' = Some 42"
    by (simp add: eval_simps)
  have t: "time_format sample_locals = ''microseconds''"
    by (simp add: sample_locals_def)
  have v: "timestamp_usec ?E (utcnow ?E - 604800000000) = 1699395200000000"
    by (simp add: test_env_def)
  have s: "str_int 1699395200000000 = ''1699395200000000''" "str_int 42 = ''42''"
    by (simp_all add: eval_simps)
  note T = pointer_written_before_first_query
    [where c = sample_configuration and l = sample_locals and env = ?E
      and stored = None and f = "\<lambda>i q. None" and g = "\<lambda>rows. True"
      and tf = "''microseconds''" and e = NotFoundException and s = "''42''" and n = 42]
  have h: "validate sample_configuration = Inr sample_locals \<and> make_client ?E = Inr ()"
    by (simp add: sample_validate sample_client)
  have 1: "\<exists>u p evs.
         resolve_pointer ?E (time_format sample_locals) None = Inr (u, p)
         \<and> resolve_pointer (?E\<lparr>execute := (\<lambda>i q. None), save_raises := (\<lambda>rows. True)\<rparr>)
             (time_format sample_locals) None = Inr (u, p)
         \<and> events (collect ?E sample_configuration None) = SetPointer p # evs
         \<and> (\<forall>e \<in> set evs. (\<exists>q r. e = Query q r) \<or> (\<exists>rows. e = Save rows))
         \<and> pointer (collect ?E sample_configuration None) = Some p"
    by (rule mp [OF conjunct1 [OF T] h])
  from mp [OF conjunct1 [OF conjunct2 [OF T]] h]
  have 2: "\<exists>evs. events (collect ?E sample_configuration None)
         = SetPointer ''1699395200000000'' # evs"
    by (simp add: t v s)
  from T w have 3: "resolve_pointer ?E ''microseconds'' None
       = Inr (Some 1699395200000000, ''1699395200000000'')"
    by (simp add: v s)
  from T i have 4: "resolve_pointer ?E ''microseconds'' (Some ''42'') = Inr (Some 42, ''42'')"
    by (simp add: s)
  show ?thesis
    by (intro conjI sample_validate sample_client 1 2 w 3 i 4)
qed

text \<open>
  C3, as the claim states it, fails: with no stored pointer and a client whose first
  query fails, the run raises \<^verbatim>\<open>RequestFailedException\<close> and leaves the pointer set to
  the default-window value.
\<close>

theorem failed_run_changes_pointer:
  "outcome (collect (test_env (\<lambda>i. None)) sample_configuration None) = Some RequestFailedException
   \<and> pointer (collect (test_env (\<lambda>i. None)) sample_configuration None) = Some ''1699395200000000''"
  by (simp add: run_simps paging_loop.simps)

text \<open>
  C3, amended. In every run in which a call of the client fails, \<^verbatim>\<open>collect\<close> raises
  \<^verbatim>\<open>RequestFailedException\<close>, the sink is never called, and the only assignment to the
  pointer is the one made at resolution, before the first query: after the run the
  pointer holds the resolved value.
\<close>

theorem abort_on_failed_page:
  "None \<in> set (fetched (events (collect env c stored))) \<longrightarrow>
     outcome (collect env c stored) = Some RequestFailedException
   \<and> saved (events (collect env c stored)) = []
   \<and> (\<exists>l u p evs.
        validate c = Inr l
        \<and> resolve_pointer env (time_format l) stored = Inr (u, p)
        \<and> pointer (collect env c stored) = Some p
        \<and> events (collect env c stored) = SetPointer p # evs
        \<and> (\<forall>e \<in> set evs. \<exists>q r. e = Query q r))"
proof
  assume "None \<in> set (fetched (events (collect env c stored)))"
  then obtain q where q: "Query q None \<in> set (events (collect env c stored))"
    by (auto simp: fetched_None)
  then obtain l u p where h: "validate c = Inr l"
    "resolve_pointer env (time_format l) stored = Inr (u, p)" "build_query env l u p = Inr q"
    and c: "collect env c stored =
       \<lparr>outcome = fst (paging_loop env l u p 0 [] 0), pointer = Some p,
        events = SetPointer p # snd (paging_loop env l u p 0 [] 0)\<rparr>"
    by (rule collect_queries)
  let ?evs = "snd (paging_loop env l u p 0 [] 0)"
  from q c have m: "Query q None \<in> set ?evs" by simp
  from paging_loop_failed [OF m]
  have f: "fst (paging_loop env l u p 0 [] 0) = Some RequestFailedException" "saved ?evs = []"
    by simp_all
  have "\<forall>e \<in> set ?evs. \<exists>q r. e = Query q r"
  proof
    fix e assume e: "e \<in> set ?evs"
    with paging_loop_events [OF h(3), of 0 "[]" 0]
    have "(\<exists>r. e = Query q r) \<or> (\<exists>rows. e = Save rows)" by blast
    moreover have "\<And>rows. Save rows \<in> set ?evs \<Longrightarrow> False"
    proof -
      fix rows assume "Save rows \<in> set ?evs"
      then have "rows \<in> set (saved ?evs)"
        by (simp add: saved_mem)
      with f(2) show False by simp
    qed
    ultimately show "\<exists>q r. e = Query q r" using e by blast
  qed
  with h c f show "outcome (collect env c stored) = Some RequestFailedException
   \<and> saved (events (collect env c stored)) = []
   \<and> (\<exists>l u p evs.
        validate c = Inr l
        \<and> resolve_pointer env (time_format l) stored = Inr (u, p)
        \<and> pointer (collect env c stored) = Some p
        \<and> events (collect env c stored) = SetPointer p # evs
        \<and> (\<forall>e \<in> set evs. \<exists>q r. e = Query q r))"
    by simp
qed

text \<open>The amended C3 at a run whose first query fails.\<close>

theorem abort_on_failed_page_witness:
  "None \<in> set (fetched (events (collect (test_env (\<lambda>i. None)) sample_configuration (Some ''42''))))
   \<and> outcome (collect (test_env (\<lambda>i. None)) sample_configuration (Some ''42''))
       = Some RequestFailedException
   \<and> saved (events (collect (test_env (\<lambda>i. None)) sample_configuration (Some ''42''))) = []"
proof -
  have "paging_loop (test_env (\<lambda>i. None)) sample_locals (Some 42) ''42'' 0 [] 0
     = (Some RequestFailedException, [Query sample_query None])"
    by (simp add: paging_loop.simps [of _ _ _ _ 0 "[]" 0] loop_body_def sample_build)
      (simp add: test_env_def)
  then have h: "None \<in> set (fetched (events (collect (test_env (\<lambda>i. None)) sample_configuration (Some ''42''))))"
    by (simp add: sample_collect)
  with abort_on_failed_page [of "test_env (\<lambda>i. None)" sample_configuration "Some ''42''"]
  show ?thesis by simp
qed

subsection \<open>Pages\<close>

lemma sample_max_batches: "max_batches sample_locals = 3"
  by (simp add: sample_locals_def)

lemma test_env_execute: "execute (test_env pages) i q = pages i"
  by (simp add: test_env_def)

text \<open>A full page followed by an empty one.\<close>

lemma full_then_empty:
  assumes b: "build_query env l u p = Inr q"
    and e0: "execute env 0 q = Some page" and n: "length page = 1000"
    and e1: "execute env 1 q = Some []" and m: "1 < max_batches l"
  shows "paging_loop env l u p 0 [] 0 = (None, [Query q (Some page), Query q (Some [])])"
proof -
  from n have ne: "page \<noteq> []" by auto
  from b e0 n ne m have a: "loop_body env l u p 0 [] 0 = Again [Query q (Some page)] page"
    by (simp add: loop_body_def)
  from b e1 have c: "loop_body env l u p (Suc 0) page (Suc 0) = Leave None [Query q (Some [])]"
    by (simp add: loop_body_def)
  show ?thesis
    by (simp add: paging_loop_Again [OF a] paging_loop_Leave [OF c])
qed

text \<open>
  C1 at a run with \<^verbatim>\<open>max_batches = 3\<close> whose first page has 1000 rows and whose second
  page is empty: the run returns without an error after two fetches, and the sink is never
  called, so the 1000 accumulated rows are dropped.
\<close>

theorem accumulated_rows_lost_on_empty_page:
  "outcome (collect (test_env (\<lambda>i. if i = 0 then Some (replicate 1000 7) else Some []))
      sample_configuration (Some ''42'')) = None
   \<and> fetched (events (collect (test_env (\<lambda>i. if i = 0 then Some (replicate 1000 7) else Some []))
      sample_configuration (Some ''42''))) = [Some (replicate 1000 7), Some []]
   \<and> saved (events (collect (test_env (\<lambda>i. if i = 0 then Some (replicate 1000 7) else Some []))
      sample_configuration (Some ''42''))) = []"
proof -
  let ?env = "test_env (\<lambda>i. if i = 0 then Some (replicate 1000 7) else Some [])"
  have "paging_loop ?env sample_locals (Some 42) ''42'' 0 [] 0 =
      (None, [Query sample_query (Some (replicate 1000 7)), Query sample_query (Some [])])"
    by (rule full_then_empty [OF sample_build])
      (simp_all add: test_env_execute sample_max_batches)
  then show ?thesis
    by (simp add: sample_collect)
qed


text \<open>A first page shorter than 1000 rows ends the loop after one fetch.\<close>

lemma short_first_page:
  assumes b: "build_query env l u p = Inr q"
    and e: "execute env i q = Some rows" and n: "rows \<noteq> []" "length rows < 1000"
  shows "paging_loop env l u p i all_rows bc =
     (if save_raises env (all_rows @ rows) then Some RequestFailedException else None,
      [Query q (Some rows), Save (all_rows @ rows)])"
proof -
  from b e n have "loop_body env l u p i all_rows bc =
      Leave (if save_raises env (all_rows @ rows) then Some RequestFailedException else None)
        [Query q (Some rows), Save (all_rows @ rows)]"
    by (simp add: loop_body_def)
  then show ?thesis by (rule paging_loop_Leave)
qed

text \<open>When the body goes round again.\<close>

lemma loop_body_Again_iff:
  assumes b: "build_query env l u p = Inr q" and e: "execute env i q = Some rows"
  shows "(\<exists>evs all_rows'. loop_body env l u p i all_rows bc = Again evs all_rows')
     \<longleftrightarrow> int (bc + 1) < max_batches l \<and> 1000 \<le> length rows"
proof (cases "rows = []")
  case True
  with b e show ?thesis by (simp add: loop_body_def)
next
  case False
  with b e show ?thesis by (auto simp: loop_body_def)
qed

lemma fetched_queries: "fetched (map (\<lambda>j. Query q (Some (P j))) js) = map (\<lambda>j. Some (P j)) js"
  by (induction js) simp_all

lemma saved_queries: "saved (map (\<lambda>j. Query q (Some (P j))) js) = []"
  by (induction js) simp_all

lemma length_concat_pages:
  "\<forall>j \<in> set js. length (P j) = k \<Longrightarrow> length (concat (map P js)) = length js * k"
  by (induction js) simp_all

text \<open>
  C5. The paging loop ends: a run makes at most \<^verbatim>\<open>max_batches\<close> fetches (one when
  \<^verbatim>\<open>max_batches\<close> is below 1). After a page the body goes round again exactly when the
  incremented \<^verbatim>\<open>batch_count\<close> is below \<^verbatim>\<open>max_batches\<close> and the page does not have fewer
  than 1000 rows, which for a page within the \<^verbatim>\<open>LIMIT 1000\<close> of the query means exactly
  1000 rows. When the first \<^verbatim>\<open>max_batches\<close> pages have 1000 rows each, the loop fetches
  exactly these pages and saves their \<^verbatim>\<open>max_batches * 1000\<close> rows in one call. When the
  first page has one row, the loop fetches once and saves that row, whatever
  \<^verbatim>\<open>max_batches\<close> is.
\<close>

theorem paging_loop_pages:
  "build_query env l u p = Inr q \<longrightarrow>
     length (fetched (snd (paging_loop env l u p 0 [] 0))) \<le> max 1 (nat (max_batches l))
   \<and> (execute env i q = Some rows \<longrightarrow>
        ((\<exists>evs all_rows'. loop_body env l u p i all_rows bc = Again evs all_rows')
          \<longleftrightarrow> int (bc + 1) < max_batches l \<and> 1000 \<le> length rows))
   \<and> (execute env i q = Some rows \<and> length rows \<le> 1000 \<longrightarrow>
        ((\<exists>evs all_rows'. loop_body env l u p i all_rows bc = Again evs all_rows')
          \<longleftrightarrow> int (bc + 1) < max_batches l \<and> length rows = 1000))
   \<and> (0 < m \<and> max_batches l = int m
        \<and> (\<forall>j < m. execute env j q = Some (P j) \<and> length (P j) = 1000) \<longrightarrow>
          fetched (snd (paging_loop env l u p 0 [] 0)) = map (\<lambda>j. Some (P j)) [0..<m]
        \<and> saved (snd (paging_loop env l u p 0 [] 0)) = [concat (map P [0..<m])]
        \<and> length (concat (map P [0..<m])) = m * 1000)
   \<and> (execute env 0 q = Some [r] \<longrightarrow>
        fetched (snd (paging_loop env l u p 0 [] 0)) = [Some [r]]
        \<and> saved (snd (paging_loop env l u p 0 [] 0)) = [[r]])"
proof (intro impI conjI)
  show "length (fetched (snd (paging_loop env l u p 0 [] 0))) \<le> max 1 (nat (max_batches l))"
    using paging_loop_fetches [of env l u p 0 "[]" 0] by simp
next
  assume b: "build_query env l u p = Inr q" and e: "execute env i q = Some rows"
  from loop_body_Again_iff [OF b e, of all_rows bc]
  show "(\<exists>evs all_rows'. loop_body env l u p i all_rows bc = Again evs all_rows')
          \<longleftrightarrow> int (bc + 1) < max_batches l \<and> 1000 \<le> length rows" .
next
  assume b: "build_query env l u p = Inr q"
    and "execute env i q = Some rows \<and> length rows \<le> 1000"
  then have e: "execute env i q = Some rows" and n: "length rows \<le> 1000" by simp_all
  from loop_body_Again_iff [OF b e, of all_rows bc] n
  show "(\<exists>evs all_rows'. loop_body env l u p i all_rows bc = Again evs all_rows')
          \<longleftrightarrow> int (bc + 1) < max_batches l \<and> length rows = 1000"
    by auto
next
  assume b: "build_query env l u p = Inr q"
    and h: "0 < m \<and> max_batches l = int m
        \<and> (\<forall>j < m. execute env j q = Some (P j) \<and> length (P j) = 1000)"
  then have f: "\<forall>j. 0 \<le> j \<and> j < 0 + m \<longrightarrow> execute env j q = Some (P j) \<and> 1000 \<le> length (P j)"
    by simp
  from h have m: "0 < m" "max_batches l = int (0 + m)" by simp_all
  from paging_loop_full_pages [OF b f m, of "[]"]
  have s: "snd (paging_loop env l u p 0 [] 0) =
      map (\<lambda>j. Query q (Some (P j))) [0..<m] @ [Save (concat (map P [0..<m]))]"
    by simp
  show "fetched (snd (paging_loop env l u p 0 [] 0)) = map (\<lambda>j. Some (P j)) [0..<m]"
    by (simp add: s fetched_append fetched_queries)
  show "saved (snd (paging_loop env l u p 0 [] 0)) = [concat (map P [0..<m])]"
    by (simp add: s saved_append saved_queries)
  from h have "\<forall>j \<in> set [0..<m]. length (P j) = 1000" by simp
  from length_concat_pages [OF this]
  show "length (concat (map P [0..<m])) = m * 1000" by simp
next
  assume b: "build_query env l u p = Inr q" and e: "execute env 0 q = Some [r]"
  have s: "snd (paging_loop env l u p 0 [] 0) = [Query q (Some [r]), Save [r]]"
    using short_first_page [OF b e, of "[]" 0] by simp
  show "fetched (snd (paging_loop env l u p 0 [] 0)) = [Some [r]]"
    by (simp add: s)
  show "saved (snd (paging_loop env l u p 0 [] 0)) = [[r]]"
    by (simp add: s)
qed

text \<open>
  C5 at three pages of 1000 rows under \<^verbatim>\<open>max_batches = 3\<close>, and at a first page of one row.
\<close>

theorem paging_loop_pages_witness:
  "build_query (test_env (\<lambda>i. Some (replicate 1000 i))) sample_locals (Some 42) ''42''
     = Inr sample_query
   \<and> length (fetched (snd (paging_loop (test_env (\<lambda>i. Some (replicate 1000 i)))
        sample_locals (Some 42) ''42'' 0 [] 0))) \<le> 3
   \<and> execute (test_env (\<lambda>i. Some (replicate 1000 i))) 0 sample_query = Some (replicate 1000 0)
   \<and> (\<exists>evs all_rows'. loop_body (test_env (\<lambda>i. Some (replicate 1000 i)))
        sample_locals (Some 42) ''42'' 0 [] 0 = Again evs all_rows')
   \<and> max_batches sample_locals = 3
   \<and> fetched (snd (paging_loop (test_env (\<lambda>i. Some (replicate 1000 i)))
        sample_locals (Some 42) ''42'' 0 [] 0))
       = [Some (replicate 1000 0), Some (replicate 1000 1), Some (replicate 1000 2)]
   \<and> length (concat (map (replicate 1000) [0..<3::nat])) = 3000
   \<and> build_query (test_env (\<lambda>i. Some [7])) sample_locals (Some 42) ''42'' = Inr sample_query
   \<and> execute (test_env (\<lambda>i. Some [7])) 0 sample_query = Some [7]
   \<and> fetched (snd (paging_loop (test_env (\<lambda>i. Some [7])) sample_locals (Some 42) ''42'' 0 [] 0))
       = [Some [7]]
   \<and> saved (snd (paging_loop (test_env (\<lambda>i. Some [7])) sample_locals (Some 42) ''42'' 0 [] 0))
       = [[7]]"
proof -
  let ?A = "test_env (\<lambda>i. Some (replicate 1000 i))"
  let ?B = "test_env (\<lambda>i. Some [7])"
  have u: "[0..<3::nat] = [0, 1, 2]"
    by (simp add: upt_rec)
  have a: "execute ?A 0 sample_query = Some (replicate 1000 0) \<and> length (replicate 1000 (0::nat)) \<le> 1000"
    by (simp add: test_env_execute)
  have c: "0 < (3::nat) \<and> max_batches sample_locals = int 3
      \<and> (\<forall>j < 3. execute ?A j sample_query = Some (replicate 1000 j)
           \<and> length (replicate 1000 j) = 1000)"
    by (simp add: test_env_execute sample_max_batches)
  have d: "execute ?B 0 sample_query = Some [7]"
    by (simp add: test_env_execute)
  from paging_loop_pages [where env = ?A and l = sample_locals and u = "Some 42" and p = "''42''"
      and q = sample_query and i = 0 and rows = "replicate 1000 0" and all_rows = "[]" and bc = 0
      and m = 3 and P = "replicate 1000" and r = 7] sample_build [of "\<lambda>i. Some (replicate 1000 i)"] a c
  have "length (fetched (snd (paging_loop ?A sample_locals (Some 42) ''42'' 0 [] 0))) \<le> 3"
    and "\<exists>evs all_rows'. loop_body ?A sample_locals (Some 42) ''42'' 0 [] 0 = Again evs all_rows'"
    and "fetched (snd (paging_loop ?A sample_locals (Some 42) ''42'' 0 [] 0))
       = [Some (replicate 1000 0), Some (replicate 1000 1), Some (replicate 1000 2)]"
    and "length (concat (map (replicate 1000) [0..<3::nat])) = 3000"
    by (simp_all add: sample_max_batches u)
  moreover from paging_loop_pages [where env = ?B and l = sample_locals and u = "Some 42"
      and p = "''42''" and q = sample_query and r = 7] sample_build [of "\<lambda>i. Some [7]"] d
  have "fetched (snd (paging_loop ?B sample_locals (Some 42) ''42'' 0 [] 0)) = [Some [7]]"
    and "saved (snd (paging_loop ?B sample_locals (Some 42) ''42'' 0 [] 0)) = [[7]]"
    by simp_all
  ultimately show ?thesis
    using sample_build a d sample_max_batches by simp
qed


text \<open>What a query event records is what the client returned for the one query text.\<close>

lemma paging_loop_results:
  "build_query env l u p = Inr q \<Longrightarrow>
   Query q' r \<in> set (snd (paging_loop env l u p i all_rows bc)) \<Longrightarrow>
   \<exists>j. r = execute env j q"
proof (induction env l u p i all_rows bc rule: paging_loop.induct)
  case (1 env l u p i all_rows bc)
  show ?case
  proof (cases rule: loop_body_cases [of env l u p i all_rows bc])
    case (build e)
    with "1.prems" show ?thesis by (simp add: paging_loop_Leave)
  next
    case (failed q0)
    with "1.prems" have "r = execute env i q" by (auto simp: paging_loop_Leave)
    then show ?thesis by blast
  next
    case (empty q0)
    with "1.prems" have "r = execute env i q" by (auto simp: paging_loop_Leave)
    then show ?thesis by blast
  next
    case (flush q0 rows)
    with "1.prems" have "r = execute env i q" by (auto simp: paging_loop_Leave)
    then show ?thesis by blast
  next
    case (again q0 rows)
    with "1.prems" have "r = execute env i q
        \<or> Query q' r \<in> set (snd (paging_loop env l u p (i + 1) (all_rows @ rows) (bc + 1)))"
      by (auto simp: paging_loop_Again)
    with "1.IH" [OF again(6) "1.prems"(1)] show ?thesis by blast
  qed
qed

lemma concat_replicate_pages: "concat (map (\<lambda>j. page) js) = concat (replicate (length js) page)"
  by (induction js) simp_all

text \<open>
  C9. Every query of a run has the same text. If moreover the client is a function of
  the query text alone, every fetch of the run returns the same result, and a run of a
  valid configuration with \<^verbatim>\<open>max_batches\<close> at least 2 whose page has at least 1000 rows
  fetches that page \<^verbatim>\<open>max_batches\<close> times and calls the sink once, with \<^verbatim>\<open>max_batches\<close>
  copies of the page.
\<close>

theorem same_query_every_page:
  "(Query q r \<in> set (events (collect env c stored))
      \<and> Query q' r' \<in> set (events (collect env c stored)) \<longrightarrow> q = q')
   \<and> ((\<forall>i j t. execute env i t = execute env j t)
      \<and> Query q r \<in> set (events (collect env c stored))
      \<and> Query q' r' \<in> set (events (collect env c stored)) \<longrightarrow> r = r')
   \<and> ((\<forall>i j t. execute env i t = execute env j t)
      \<and> validate c = Inr l \<and> make_client env = Inr ()
      \<and> resolve_pointer env (time_format l) stored = Inr (u, p)
      \<and> build_query env l u p = Inr t
      \<and> execute env 0 t = Some page \<and> 1000 \<le> length page \<and> 2 \<le> max_batches l \<longrightarrow>
        events (collect env c stored) =
          SetPointer p # replicate (nat (max_batches l)) (Query t (Some page))
            @ [Save (concat (replicate (nat (max_batches l)) page))])"
proof (intro conjI impI)
  assume "Query q r \<in> set (events (collect env c stored))
      \<and> Query q' r' \<in> set (events (collect env c stored))"
  then have a: "Query q r \<in> set (events (collect env c stored))"
    and b: "Query q' r' \<in> set (events (collect env c stored))" by simp_all
  from a obtain l u p where h: "validate c = Inr l"
    "resolve_pointer env (time_format l) stored = Inr (u, p)" "build_query env l u p = Inr q"
    by (rule collect_queries)
  from b obtain l' u' p' where h': "validate c = Inr l'"
    "resolve_pointer env (time_format l') stored = Inr (u', p')" "build_query env l' u' p' = Inr q'"
    by (rule collect_queries)
  from h h' show "q = q'" by simp
next
  assume "(\<forall>i j t. execute env i t = execute env j t)
      \<and> Query q r \<in> set (events (collect env c stored))
      \<and> Query q' r' \<in> set (events (collect env c stored))"
  then have d: "\<And>i j t. execute env i t = execute env j t"
    and a: "Query q r \<in> set (events (collect env c stored))"
    and b: "Query q' r' \<in> set (events (collect env c stored))" by simp_all
  from a obtain l u p where h: "validate c = Inr l"
    "resolve_pointer env (time_format l) stored = Inr (u, p)" "build_query env l u p = Inr q"
    and c: "collect env c stored =
       \<lparr>outcome = fst (paging_loop env l u p 0 [] 0), pointer = Some p,
        events = SetPointer p # snd (paging_loop env l u p 0 [] 0)\<rparr>"
    by (rule collect_queries)
  from a b c have "Query q r \<in> set (snd (paging_loop env l u p 0 [] 0))"
    "Query q' r' \<in> set (snd (paging_loop env l u p 0 [] 0))" by simp_all
  with paging_loop_results [OF h(3)] obtain j j' where "r = execute env j q" "r' = execute env j' q"
    by blast
  with d [of j q j'] show "r = r'" by simp
next
  assume "(\<forall>i j t. execute env i t = execute env j t)
      \<and> validate c = Inr l \<and> make_client env = Inr ()
      \<and> resolve_pointer env (time_format l) stored = Inr (u, p)
      \<and> build_query env l u p = Inr t
      \<and> execute env 0 t = Some page \<and> 1000 \<le> length page \<and> 2 \<le> max_batches l"
  then have d: "\<And>i j t. execute env i t = execute env j t"
    and v: "validate c = Inr l" "make_client env = Inr ()"
    and r: "resolve_pointer env (time_format l) stored = Inr (u, p)"
    and b: "build_query env l u p = Inr t"
    and e: "execute env 0 t = Some page" and n: "1000 \<le> length page" and m: "2 \<le> max_batches l"
    by simp_all
  from v r have c: "collect env c stored =
       \<lparr>outcome = fst (paging_loop env l u p 0 [] 0), pointer = Some p,
        events = SetPointer p # snd (paging_loop env l u p 0 [] 0)\<rparr>"
    by (simp add: collect_def split: prod.splits)
  let ?k = "nat (max_batches l)"
  from d e n have f: "\<forall>j. 0 \<le> j \<and> j < 0 + ?k \<longrightarrow>
      execute env j t = Some ((\<lambda>j. page) j) \<and> 1000 \<le> length ((\<lambda>j. page) j)"
    by (metis (no_types))
  from m have k: "0 < ?k" "max_batches l = int (0 + ?k)" by simp_all
  from paging_loop_full_pages [OF b f k, of "[]"]
  have "snd (paging_loop env l u p 0 [] 0) =
      replicate ?k (Query t (Some page)) @ [Save (concat (replicate ?k page))]"
    by (simp add: concat_replicate_pages map_replicate_const)
  with c show "events (collect env c stored) =
          SetPointer p # replicate (nat (max_batches l)) (Query t (Some page))
            @ [Save (concat (replicate (nat (max_batches l)) page))]"
    by simp
qed

text \<open>C9 at a client that returns the same 1000 rows to every call, with \<^verbatim>\<open>max_batches = 3\<close>.\<close>

theorem same_query_every_page_witness:
  "(\<forall>i j t. execute (test_env (\<lambda>i. Some (replicate 1000 7))) i t
       = execute (test_env (\<lambda>i. Some (replicate 1000 7))) j t)
   \<and> validate sample_configuration = Inr sample_locals
   \<and> make_client (test_env (\<lambda>i. Some (replicate 1000 7))) = Inr ()
   \<and> resolve_pointer (test_env (\<lambda>i. Some (replicate 1000 7))) (time_format sample_locals)
       (Some ''42'') = Inr (Some 42, ''42'')
   \<and> build_query (test_env (\<lambda>i. Some (replicate 1000 7))) sample_locals (Some 42) ''42''
       = Inr sample_query
   \<and> execute (test_env (\<lambda>i. Some (replicate 1000 7))) 0 sample_query = Some (replicate 1000 7)
   \<and> (1000::nat) \<le> length (replicate 1000 (7::nat))
   \<and> 2 \<le> max_batches sample_locals
   \<and> events (collect (test_env (\<lambda>i. Some (replicate 1000 7))) sample_configuration (Some ''42''))
       = [SetPointer ''42'', Query sample_query (Some (replicate 1000 7)),
          Query sample_query (Some (replicate 1000 7)), Query sample_query (Some (replicate 1000 7)),
          Save (replicate 1000 7 @ replicate 1000 7 @ replicate 1000 7)]
   \<and> Query sample_query (Some (replicate 1000 7))
       \<in> set (events (collect (test_env (\<lambda>i. Some (replicate 1000 7))) sample_configuration
           (Some ''42'')))"
proof -
  let ?E = "test_env (\<lambda>i. Some (replicate 1000 7))"
  have t: "time_format sample_locals = ''microseconds''"
    by (simp add: sample_locals_def)
  have h: "(\<forall>i j t. execute ?E i t = execute ?E j t)
      \<and> validate sample_configuration = Inr sample_locals \<and> make_client ?E = Inr ()
      \<and> resolve_pointer ?E (time_format sample_locals) (Some ''42'') = Inr (Some 42, ''42'')
      \<and> build_query ?E sample_locals (Some 42) ''42'' = Inr sample_query
      \<and> execute ?E 0 sample_query = Some (replicate 1000 7)
      \<and> 1000 \<le> length (replicate 1000 (7::nat)) \<and> 2 \<le> max_batches sample_locals"
    by (simp add: test_env_execute sample_validate sample_client t sample_resolve sample_build
        sample_max_batches)
  have n: "\<And>x :: nat event. replicate 3 x = [x, x, x]"
    "\<And>x :: nat list. concat (replicate 3 x) = x @ x @ x"
    by (simp_all add: numeral_3_eq_3)
  from same_query_every_page [where env = ?E and c = sample_configuration
      and stored = "Some ''42''" and l = sample_locals and u = "Some 42" and p = "''42''"
      and t = sample_query and page = "replicate 1000 7" and q = sample_query
      and q' = sample_query and r = "Some (replicate 1000 7)" and r' = "Some (replicate 1000 7)"] h
  have e: "events (collect ?E sample_configuration (Some ''42''))
       = [SetPointer ''42'', Query sample_query (Some (replicate 1000 7)),
          Query sample_query (Some (replicate 1000 7)), Query sample_query (Some (replicate 1000 7)),
          Save (replicate 1000 7 @ replicate 1000 7 @ replicate 1000 7)]"
    by (simp add: sample_max_batches n)
  then have "Query sample_query (Some (replicate 1000 7))
       \<in> set (events (collect ?E sample_configuration (Some ''42'')))"
    by simp
  with h e show ?thesis by simp
qed

end
